theory Spec2Isabelle
  imports Main "HOL-Library.AList"
begin

section \<open>Values of the program\<close>

text \<open>
  The tenant store of \<^verbatim>\<open>backend/app.py\<close> is a JSON file, and every record,
  request payload and upstream answer is the Python value that \<^verbatim>\<open>json.loads\<close>
  produces. A Python \<^verbatim>\<open>dict\<close> keeps insertion order and has unique keys: it is an
  association list, read with \<^const>\<open>map_of\<close>, written with \<open>AList.update\<close>
  (which replaces in place or appends, as assignment to a dict key does) and
  \<open>AList.delete\<close> (\<^verbatim>\<open>pop(key, None)\<close>). Numbers are integers (floating point
  is left out) and a \<^verbatim>\<open>str\<close> is a list of characters.
\<close>

datatype json =
    JNull
  | JBool bool
  | JInt int
  | JStr string
  | JList "json list"
  | JObj "(string \<times> json) list"

datatype py_exn = AttributeError | TypeError | ValueError | ExternalError

text \<open>Truth value of a Python object (\<^verbatim>\<open>bool(x)\<close>, \<^verbatim>\<open>if x\<close>, \<^verbatim>\<open>all([...])\<close>).\<close>

fun truthy :: "json \<Rightarrow> bool" where
  "truthy JNull = False"
| "truthy (JBool b) = b"
| "truthy (JInt n) = (n \<noteq> 0)"
| "truthy (JStr s) = (s \<noteq> [])"
| "truthy (JList xs) = (xs \<noteq> [])"
| "truthy (JObj kvs) = (kvs \<noteq> [])"

text \<open>\<^verbatim>\<open>x or 0\<close>.\<close>

definition or_zero :: "json \<Rightarrow> json" where
  "or_zero v = (if truthy v then v else JInt 0)"

text \<open>\<^verbatim>\<open>for t in x\<close>: a list gives its elements, a dict its keys, a string its
  characters; anything else raises \<^verbatim>\<open>TypeError\<close>.\<close>

fun py_iter :: "json \<Rightarrow> py_exn + json list" where
  "py_iter (JList xs) = Inr xs"
| "py_iter (JObj kvs) = Inr (map (\<lambda>kv. JStr (fst kv)) kvs)"
| "py_iter (JStr s) = Inr (map (\<lambda>c. JStr [c]) s)"
| "py_iter v = Inl TypeError"

text \<open>\<^verbatim>\<open>len(x)\<close>.\<close>

fun py_len :: "json \<Rightarrow> py_exn + int" where
  "py_len (JList xs) = Inr (int (length xs))"
| "py_len (JObj kvs) = Inr (int (length kvs))"
| "py_len (JStr s) = Inr (int (length s))"
| "py_len v = Inl TypeError"

text \<open>\<^verbatim>\<open>x.get(key)\<close>: only a dict has the method; the inner option is the
  absent key.\<close>

fun py_get :: "json \<Rightarrow> string \<Rightarrow> py_exn + json option" where
  "py_get (JObj kvs) k = Inr (map_of kvs k)"
| "py_get v k = Inl AttributeError"

text \<open>\<^verbatim>\<open>d.get(key, default)\<close> on a dict.\<close>

definition get_or :: "(string \<times> json) list \<Rightarrow> string \<Rightarrow> json \<Rightarrow> json" where
  "get_or d k dflt = (case map_of d k of None \<Rightarrow> dflt | Some v \<Rightarrow> v)"

text \<open>\<^verbatim>\<open>d.update({...})\<close>: the new pairs are assigned in order.\<close>

fun dict_update :: "(string \<times> json) list \<Rightarrow> (string \<times> json) list \<Rightarrow> (string \<times> json) list" where
  "dict_update d [] = d"
| "dict_update d ((k, v) # kvs) = dict_update (AList.update k v d) kvs"

text \<open>\<^verbatim>\<open>str.strip()\<close>: the characters below 256 for which \<^verbatim>\<open>str.isspace\<close>
  holds are removed at both ends.\<close>

definition is_space :: "char \<Rightarrow> bool" where
  "is_space c = ((of_char c :: nat) \<in> {9, 10, 11, 12, 13, 28, 29, 30, 31, 32, 133, 160})"

definition strip :: "string \<Rightarrow> string" where
  "strip s = rev (dropWhile is_space (rev (dropWhile is_space s)))"

section \<open>Libraries and the outside world\<close>

text \<open>
  The functions of the libraries the program calls are the fields of an environment:
  \<^verbatim>\<open>json.loads\<close> (\<open>None\<close> when it raises) and \<^verbatim>\<open>json.dumps\<close> over the text of
  the file, the process-wide \<^verbatim>\<open>_FERNET\<close> (encryption draws an initialisation
  vector and a time stamp, here a number; decryption is \<open>None\<close> when it raises),
  \<^verbatim>\<open>uuid.uuid4\<close>, \<^verbatim>\<open>datetime.now().isoformat()\<close>, \<^verbatim>\<open>str\<close> of a value that is
  not a string, \<^verbatim>\<open>int\<close> of a string, the MSAL token request and the HTTP GET of
  \<^verbatim>\<open>requests\<close>.
\<close>

datatype http_result =
    ConnectionFailed
  | Response nat "json option"

record 'text env =
  loads :: "'text \<Rightarrow> json option"
  dumps :: "json \<Rightarrow> 'text"
  fernet_encrypt :: "nat \<Rightarrow> string \<Rightarrow> string"
  fernet_decrypt :: "string \<Rightarrow> string option"
  uuid4 :: "nat \<Rightarrow> string"
  now_isoformat :: "nat \<Rightarrow> string"
  repr_of :: "json \<Rightarrow> string"
  int_of_str :: "string \<Rightarrow> int option"
  acquire_token_for_client :: "json \<Rightarrow> json \<Rightarrow> json \<Rightarrow> py_exn + (string \<times> json) list"
  requests_get :: "string \<Rightarrow> json \<Rightarrow> http_result"

text \<open>
  The state the program changes: the file \<^verbatim>\<open>tenants.json\<close> (\<open>None\<close> while it
  does not exist), the number of \<^verbatim>\<open>write_text\<close> calls made on it, the supply of
  fresh numbers behind \<^verbatim>\<open>uuid4\<close>, the cipher and the clock, and the token requests
  sent so far. Reading and writing the file do not fail here: an operating-system error
  in \<^verbatim>\<open>read_text\<close> or \<^verbatim>\<open>write_text\<close> is outside the model, and so is a string
  that UTF-8 cannot encode.
\<close>

record 'text world =
  tenants_file :: "'text option"
  writes :: nat
  ticks :: nat
  token_requests :: "(json \<times> json \<times> json) list"

definition tick :: "'text world \<Rightarrow> 'text world" where
  "tick w = w\<lparr>ticks := Suc (ticks w)\<rparr>"

text \<open>\<^verbatim>\<open>str(x)\<close> and \<^verbatim>\<open>int(x)\<close>.\<close>

definition py_str :: "'text env \<Rightarrow> json \<Rightarrow> string" where
  "py_str e v = (case v of JStr s \<Rightarrow> s | _ \<Rightarrow> repr_of e v)"

definition py_int :: "'text env \<Rightarrow> json \<Rightarrow> py_exn + int" where
  "py_int e v =
     (case v of
        JInt n \<Rightarrow> Inr n
      | JBool b \<Rightarrow> Inr (if b then 1 else 0)
      | JStr s \<Rightarrow> (case int_of_str e s of None \<Rightarrow> Inl ValueError | Some n \<Rightarrow> Inr n)
      | _ \<Rightarrow> Inl TypeError)"

section \<open>Secret cipher\<close>

text \<open>\<^verbatim>\<open>_encrypt_secret\<close> (app.py 38-42); \<open>None\<close> is Python's \<^verbatim>\<open>None\<close>.\<close>

definition encrypt_secret :: "'text env \<Rightarrow> nat \<Rightarrow> string option \<Rightarrow> string" where
  "encrypt_secret e n plain =
     (case plain of None \<Rightarrow> [] | Some p \<Rightarrow> fernet_encrypt e n p)"

text \<open>\<^verbatim>\<open>_looks_encrypted\<close> (app.py 44-45).\<close>

definition looks_encrypted :: "json \<Rightarrow> bool" where
  "looks_encrypted v =
     (case v of JStr s \<Rightarrow> take 5 s = ''gAAAA'' \<and> length s > 20 | _ \<Rightarrow> False)"

text \<open>\<^verbatim>\<open>_decrypt_secret\<close> (app.py 205-212).\<close>

definition decrypt_secret :: "'text env \<Rightarrow> json \<Rightarrow> json" where
  "decrypt_secret e encrypted =
     (if \<not> truthy encrypted \<or> \<not> looks_encrypted encrypted then encrypted
      else (case encrypted of
              JStr s \<Rightarrow> (case fernet_decrypt e s of Some p \<Rightarrow> JStr p | None \<Rightarrow> JStr [])
            | _ \<Rightarrow> JStr []))"

text \<open>What the program relies on from Fernet: a token decrypts to its plaintext,
  and every token is the URL-safe base64 of a version byte \<^verbatim>\<open>0x80\<close>, a time stamp
  and at least 64 further bytes, so it starts with \<^verbatim>\<open>gAAAA\<close> and is longer than 20
  characters.\<close>

definition fernet_ok :: "'text env \<Rightarrow> bool" where
  "fernet_ok e =
     (\<forall>n p. fernet_decrypt e (fernet_encrypt e n p) = Some p
          \<and> looks_encrypted (JStr (fernet_encrypt e n p)))"

text \<open>What it relies on from \<^verbatim>\<open>json\<close>: a dumped value loads back.\<close>

definition json_ok :: "'text env \<Rightarrow> bool" where
  "json_ok e = (\<forall>j. loads e (dumps e j) = Some j)"

section \<open>Tenant store\<close>

text \<open>The body of the migration loop of \<^verbatim>\<open>_read_tenants\<close> (app.py 56-59) for one
  record: the record after the step and whether it was changed.\<close>

definition migrate_record :: "'text env \<Rightarrow> nat \<Rightarrow> json \<Rightarrow> py_exn + (json \<times> bool)" where
  "migrate_record e n t =
     (case t of
        JObj kvs \<Rightarrow>
          (case map_of kvs ''clientSecret'' of
             Some (JStr s) \<Rightarrow>
               if s \<noteq> [] \<and> \<not> looks_encrypted (JStr s)
               then Inr (JObj (AList.update ''clientSecret''
                                 (JStr (encrypt_secret e n (Some s))) kvs), True)
               else Inr (t, False)
           | _ \<Rightarrow> Inr (t, False))
      | _ \<Rightarrow> Inl AttributeError)"

text \<open>The loop itself (app.py 54-59), with the flag \<^verbatim>\<open>changed\<close> and the next fresh
  number as loop state; the number is returned also when a record raises.\<close>

fun migrate_loop ::
  "'text env \<Rightarrow> json list \<Rightarrow> bool \<Rightarrow> nat \<Rightarrow> (py_exn + (json list \<times> bool)) \<times> nat" where
  "migrate_loop e [] changed n = (Inr ([], changed), n)"
| "migrate_loop e (t # ts) changed n =
     (case migrate_record e n t of
        Inl x \<Rightarrow> (Inl x, n)
      | Inr (t', c) \<Rightarrow>
          (case migrate_loop e ts (changed \<or> c) (if c then Suc n else n) of
             (Inl x, n') \<Rightarrow> (Inl x, n')
           | (Inr (ts', ch), n') \<Rightarrow> (Inr (t' # ts', ch), n')))"

text \<open>A container whose elements were mutated in place: only a list holds dicts.\<close>

definition with_items :: "json \<Rightarrow> json list \<Rightarrow> json" where
  "with_items tenants items = (case tenants of JList _ \<Rightarrow> JList items | _ \<Rightarrow> tenants)"

text \<open>\<^verbatim>\<open>_write_tenants\<close> (app.py 66-68).\<close>

definition write_tenants :: "'text env \<Rightarrow> json \<Rightarrow> 'text world \<Rightarrow> 'text world" where
  "write_tenants e tenants w =
     w\<lparr>tenants_file := Some (dumps e tenants), writes := Suc (writes w)\<rparr>"

text \<open>\<^verbatim>\<open>_read_tenants\<close> (app.py 47-64): every exception ends in the empty list,
  without a write.\<close>

definition read_tenants :: "'text env \<Rightarrow> 'text world \<Rightarrow> json \<times> 'text world" where
  "read_tenants e w =
     (case tenants_file w of
        None \<Rightarrow> (JList [], w)
      | Some txt \<Rightarrow>
          (case loads e txt of
             None \<Rightarrow> (JList [], w)
           | Some tenants \<Rightarrow>
               (case py_iter tenants of
                  Inl x \<Rightarrow> (JList [], w)
                | Inr items \<Rightarrow>
                    (case migrate_loop e items False (ticks w) of
                       (Inl x, n) \<Rightarrow> (JList [], w\<lparr>ticks := n\<rparr>)
                     | (Inr (items', changed), n) \<Rightarrow>
                         (with_items tenants items',
                          if changed
                          then write_tenants e (with_items tenants items') (w\<lparr>ticks := n\<rparr>)
                          else w\<lparr>ticks := n\<rparr>)))))"

section \<open>Tenant CRUD endpoints\<close>

text \<open>A handler returns a body and a status; the body \<open>Failure x\<close> is
  \<^verbatim>\<open>{"error": str(x)}\<close> of the handler's \<^verbatim>\<open>except Exception\<close>. A request
  payload is the JSON object of the request.\<close>

datatype body = Body json | Failure py_exn

type_synonym response = "body \<times> nat"

definition error_body :: "string \<Rightarrow> body" where
  "error_body msg = Body (JObj [(''error'', JStr msg)])"

definition required :: "string list" where
  "required = [''name'', ''tenantId'', ''clientId'', ''clientSecret'']"

definition has_required :: "'text env \<Rightarrow> (string \<times> json) list \<Rightarrow> bool" where
  "has_required e payload =
     list_all (\<lambda>k. case map_of payload k of
                      None \<Rightarrow> False
                    | Some v \<Rightarrow> strip (py_str e v) \<noteq> []) required"

text \<open>The record without its secret, as every handler returns it.\<close>

definition redact :: "(string \<times> json) list \<Rightarrow> json \<Rightarrow> json" where
  "redact item has = JObj (AList.update ''hasSecret'' has (AList.delete ''clientSecret'' item))"

text \<open>
  \<^verbatim>\<open>create_tenant\<close> (app.py 126-154) in the two parts between which
  \<^verbatim>\<open>_TENANTS_LOCK\<close> is free: \<open>create_begin\<close> runs up to
  \<^verbatim>\<open>tenants.insert(0, new_item)\<close> (lines 129-146; it takes the lock inside
  \<^verbatim>\<open>_read_tenants\<close> only) and gives either the early response or the list to
  write with the new record; \<open>create_finish\<close> is lines 147-152 (it takes the lock
  inside \<^verbatim>\<open>_write_tenants\<close> only).
\<close>

definition create_begin ::
  "'text env \<Rightarrow> (string \<times> json) list \<Rightarrow> 'text world
     \<Rightarrow> (response + json \<times> (string \<times> json) list) \<times> 'text world" where
  "create_begin e payload w =
     (if \<not> has_required e payload then (Inl (error_body ''Missing required fields'', 400), w)
      else
        (case read_tenants e w of (tenants, w1) \<Rightarrow>
           let uid = uuid4 e (ticks w1);
               w2 = tick w1;
               secret = encrypt_secret e (ticks w2)
                          (Some (strip (py_str e (get_or payload ''clientSecret'' JNull))));
               w3 = tick w2
           in (case py_int e (or_zero (get_or payload ''userCount'' (JInt 0))) of
                 Inl x \<Rightarrow> (Inl (Failure x, 500), w3)
               | Inr uc \<Rightarrow>
                   (case py_int e (or_zero (get_or payload ''licenseCount'' (JInt 0))) of
                      Inl x \<Rightarrow> (Inl (Failure x, 500), w3)
                    | Inr lc \<Rightarrow>
                        let new_item =
                              [(''id'', JStr uid),
                               (''name'', JStr (strip (py_str e (get_or payload ''name'' JNull)))),
                               (''tenantId'', JStr (strip (py_str e (get_or payload ''tenantId'' JNull)))),
                               (''clientId'', JStr (strip (py_str e (get_or payload ''clientId'' JNull)))),
                               (''clientSecret'', JStr secret),
                               (''isActive'', JBool (truthy (get_or payload ''isActive'' (JBool True)))),
                               (''lastSync'', get_or payload ''lastSync'' (JStr [])),
                               (''userCount'', JInt uc),
                               (''licenseCount'', JInt lc)]
                        in (case tenants of
                              JList ts \<Rightarrow> (Inr (JList (JObj new_item # ts), new_item), w3)
                            | _ \<Rightarrow> (Inl (Failure AttributeError, 500), w3))))))"

definition create_finish ::
  "'text env \<Rightarrow> json \<times> (string \<times> json) list \<Rightarrow> 'text world \<Rightarrow> response \<times> 'text world" where
  "create_finish e pending w =
     (case pending of (tenants, new_item) \<Rightarrow>
        ((Body (redact new_item (JBool True)), 201), write_tenants e tenants w))"

definition create_tenant ::
  "'text env \<Rightarrow> (string \<times> json) list \<Rightarrow> 'text world \<Rightarrow> response \<times> 'text world" where
  "create_tenant e payload w =
     (case create_begin e payload w of
        (Inl r, w1) \<Rightarrow> (r, w1)
      | (Inr pending, w1) \<Rightarrow> create_finish e pending w1)"

text \<open>\<^verbatim>\<open>update_tenant\<close> (app.py 156-187). \<open>update_record\<close> is the body of the
  loop for the matching record (lines 165-176): the dict literal is evaluated first, so
  an \<^verbatim>\<open>int\<close> that raises leaves the record as it was.\<close>

definition update_record ::
  "'text env \<Rightarrow> (string \<times> json) list \<Rightarrow> (string \<times> json) list \<Rightarrow> nat
     \<Rightarrow> (py_exn + (string \<times> json) list) \<times> nat" where
  "update_record e payload t n =
     (case py_int e (or_zero (get_or payload ''userCount'' (get_or t ''userCount'' (JInt 0)))) of
        Inl x \<Rightarrow> (Inl x, n)
      | Inr uc \<Rightarrow>
          (case py_int e (or_zero (get_or payload ''licenseCount'' (get_or t ''licenseCount'' (JInt 0)))) of
             Inl x \<Rightarrow> (Inl x, n)
           | Inr lc \<Rightarrow>
               let t1 = dict_update t
                     [(''name'', JStr (strip (py_str e (get_or payload ''name'' (get_or t ''name'' (JStr [])))))),
                      (''tenantId'', JStr (strip (py_str e (get_or payload ''tenantId'' (get_or t ''tenantId'' (JStr [])))))),
                      (''clientId'', JStr (strip (py_str e (get_or payload ''clientId'' (get_or t ''clientId'' (JStr [])))))),
                      (''isActive'', JBool (truthy (get_or payload ''isActive'' (get_or t ''isActive'' (JBool True))))),
                      (''lastSync'', get_or payload ''lastSync'' (get_or t ''lastSync'' (JStr []))),
                      (''userCount'', JInt uc),
                      (''licenseCount'', JInt lc)]
               in (case map_of payload ''clientSecret'' of
                     None \<Rightarrow> (Inr t1, n)
                   | Some v \<Rightarrow>
                       if strip (py_str e v) \<noteq> []
                       then (Inr (AList.update ''clientSecret''
                                    (JStr (encrypt_secret e n (Some (strip (py_str e v))))) t1), Suc n)
                       else (Inr t1, n))))"

text \<open>The loop (lines 162-178): the list with the first matching record updated, and
  that record (\<^verbatim>\<open>updated\<close>).\<close>

fun update_loop ::
  "'text env \<Rightarrow> string \<Rightarrow> (string \<times> json) list \<Rightarrow> json list \<Rightarrow> nat
     \<Rightarrow> (py_exn + json list \<times> json option) \<times> nat" where
  "update_loop e tid payload [] n = (Inr ([], None), n)"
| "update_loop e tid payload (t # ts) n =
     (case t of
        JObj kvs \<Rightarrow>
          if map_of kvs ''id'' = Some (JStr tid)
          then (case update_record e payload kvs n of
                  (Inl x, n') \<Rightarrow> (Inl x, n')
                | (Inr kvs', n') \<Rightarrow> (Inr (JObj kvs' # ts, Some (JObj kvs')), n'))
          else (case update_loop e tid payload ts n of
                  (Inl x, n') \<Rightarrow> (Inl x, n')
                | (Inr (ts', u), n') \<Rightarrow> (Inr (t # ts', u), n'))
      | _ \<Rightarrow> (Inl AttributeError, n))"

definition update_tenant ::
  "'text env \<Rightarrow> string \<Rightarrow> (string \<times> json) list \<Rightarrow> 'text world \<Rightarrow> response \<times> 'text world" where
  "update_tenant e tid payload w =
     (case read_tenants e w of (tenants, w1) \<Rightarrow>
        (case py_iter tenants of
           Inl x \<Rightarrow> ((Failure x, 500), w1)
         | Inr items \<Rightarrow>
             (case update_loop e tid payload items (ticks w1) of
                (Inl x, n) \<Rightarrow> ((Failure x, 500), w1\<lparr>ticks := n\<rparr>)
              | (Inr (items', updated), n) \<Rightarrow>
                  (case updated of
                     Some (JObj u) \<Rightarrow>
                       if u = [] then ((error_body ''Tenant not found'', 404), w1\<lparr>ticks := n\<rparr>)
                       else ((Body (redact u (JBool (truthy (get_or u ''clientSecret'' JNull)))), 200),
                             write_tenants e (with_items tenants items') (w1\<lparr>ticks := n\<rparr>))
                   | _ \<Rightarrow> ((error_body ''Tenant not found'', 404), w1\<lparr>ticks := n\<rparr>)))))"

text \<open>\<^verbatim>\<open>delete_tenant\<close> (app.py 189-199); \<open>keep_others\<close> is the list
  comprehension of line 193.\<close>

fun keep_others :: "string \<Rightarrow> json list \<Rightarrow> py_exn + json list" where
  "keep_others tid [] = Inr []"
| "keep_others tid (t # ts) =
     (case py_get t ''id'' of
        Inl x \<Rightarrow> Inl x
      | Inr i \<Rightarrow>
          (case keep_others tid ts of
             Inl x \<Rightarrow> Inl x
           | Inr r \<Rightarrow> Inr (if i \<noteq> Some (JStr tid) then t # r else r)))"

definition delete_tenant :: "'text env \<Rightarrow> string \<Rightarrow> 'text world \<Rightarrow> response \<times> 'text world" where
  "delete_tenant e tid w =
     (case read_tenants e w of (tenants, w1) \<Rightarrow>
        (case py_iter tenants of
           Inl x \<Rightarrow> ((Failure x, 500), w1)
         | Inr items \<Rightarrow>
             (case keep_others tid items of
                Inl x \<Rightarrow> ((Failure x, 500), w1)
              | Inr new_list \<Rightarrow>
                  (case py_len tenants of
                     Inl x \<Rightarrow> ((Failure x, 500), w1)
                   | Inr n \<Rightarrow>
                       if int (length new_list) = n
                       then ((error_body ''Tenant not found'', 404), w1)
                       else ((Body (JObj [(''ok'', JBool True)]), 200),
                             write_tenants e (JList new_list) w1)))))"

section \<open>Live data endpoints\<close>

text \<open>\<^verbatim>\<open>_get_tenant_credentials\<close> (app.py 214-224); \<open>find_credentials\<close> is its
  loop.\<close>

fun find_credentials :: "'text env \<Rightarrow> string \<Rightarrow> json list \<Rightarrow> py_exn + json \<times> json \<times> json" where
  "find_credentials e tid [] = Inr (JStr [], JStr [], JStr [])"
| "find_credentials e tid (t # ts) =
     (case t of
        JObj kvs \<Rightarrow>
          if map_of kvs ''id'' = Some (JStr tid) \<and> truthy (get_or kvs ''isActive'' (JBool False))
          then Inr (get_or kvs ''tenantId'' (JStr []),
                    get_or kvs ''clientId'' (JStr []),
                    decrypt_secret e (get_or kvs ''clientSecret'' (JStr [])))
          else find_credentials e tid ts
      | _ \<Rightarrow> Inl AttributeError)"

definition get_tenant_credentials ::
  "'text env \<Rightarrow> string \<Rightarrow> 'text world \<Rightarrow> (py_exn + json \<times> json \<times> json) \<times> 'text world" where
  "get_tenant_credentials e tid w =
     (case read_tenants e w of (tenants, w1) \<Rightarrow>
        (case py_iter tenants of
           Inl x \<Rightarrow> (Inl x, w1)
         | Inr items \<Rightarrow> (find_credentials e tid items, w1)))"

text \<open>
  The four fetches (app.py 250-280) share one body: \<^verbatim>\<open>requests.get\<close>, then
  \<^verbatim>\<open>raise_for_status\<close>, which raises exactly for a status from 400 to 599, then
  \<^verbatim>\<open>response.json()\<close>, which raises when the body is not JSON; every exception is
  replaced by \<^verbatim>\<open>{"value": []}\<close>. The second argument is the access token of the
  \<^verbatim>\<open>Authorization\<close> header.
\<close>

definition empty_value :: json where
  "empty_value = JObj [(''value'', JList [])]"

definition fetch :: "'text env \<Rightarrow> string \<Rightarrow> json \<Rightarrow> json" where
  "fetch e url tok =
     (case requests_get e url tok of
        ConnectionFailed \<Rightarrow> empty_value
      | Response st b \<Rightarrow>
          if 400 \<le> st \<and> st < 600 then empty_value
          else (case b of None \<Rightarrow> empty_value | Some j \<Rightarrow> j))"

definition users_url :: string where
  "users_url = ''https://graph.microsoft.com/v1.0/users''"

definition licenses_url :: string where
  "licenses_url = ''https://graph.microsoft.com/v1.0/subscribedSkus''"

definition groups_url :: string where
  "groups_url = ''https://graph.microsoft.com/v1.0/groups''"

definition sites_url :: string where
  "sites_url = ''https://graph.microsoft.com/v1.0/sites?search=*''"

definition fetch_users :: "'text env \<Rightarrow> json \<Rightarrow> json" where
  "fetch_users e tok = fetch e users_url tok"

definition fetch_licenses :: "'text env \<Rightarrow> json \<Rightarrow> json" where
  "fetch_licenses e tok = fetch e licenses_url tok"

definition fetch_groups :: "'text env \<Rightarrow> json \<Rightarrow> json" where
  "fetch_groups e tok = fetch e groups_url tok"

definition fetch_sites :: "'text env \<Rightarrow> json \<Rightarrow> json" where
  "fetch_sites e tok = fetch e sites_url tok"

text \<open>\<^verbatim>\<open>data.get('value', [])\<close> (app.py 293-296).\<close>

definition value_of :: "json \<Rightarrow> py_exn + json" where
  "value_of d =
     (case py_get d ''value'' of
        Inl x \<Rightarrow> Inl x
      | Inr None \<Rightarrow> Inr (JList [])
      | Inr (Some v) \<Rightarrow> Inr v)"

text \<open>User metrics (app.py 299-301): \<open>active_filter\<close> is the list comprehension of
  line 300; the result is total, active, disabled.\<close>

fun active_filter :: "json list \<Rightarrow> py_exn + json list" where
  "active_filter [] = Inr []"
| "active_filter (u # us) =
     (case py_get u ''accountEnabled'' of
        Inl x \<Rightarrow> Inl x
      | Inr a \<Rightarrow>
          (case active_filter us of
             Inl x \<Rightarrow> Inl x
           | Inr r \<Rightarrow> Inr (if truthy (case a of None \<Rightarrow> JBool True | Some v \<Rightarrow> v) then u # r else r)))"

definition user_metrics :: "json \<Rightarrow> py_exn + int \<times> int \<times> int" where
  "user_metrics users =
     (case py_len users of
        Inl x \<Rightarrow> Inl x
      | Inr total_users \<Rightarrow>
          (case py_iter users of
             Inl x \<Rightarrow> Inl x
           | Inr us \<Rightarrow>
               (case active_filter us of
                  Inl x \<Rightarrow> Inl x
                | Inr act \<Rightarrow>
                    Inr (total_users, int (length act), total_users - int (length act)))))"

text \<open>License metrics (app.py 303-305). \<^verbatim>\<open>sum\<close> adds each term to the running
  total, which raises \<^verbatim>\<open>TypeError\<close> for a term that is not a number; the result is
  total, used, available.\<close>

definition py_num :: "json \<Rightarrow> py_exn + int" where
  "py_num v =
     (case v of JInt n \<Rightarrow> Inr n | JBool b \<Rightarrow> Inr (if b then 1 else 0) | _ \<Rightarrow> Inl TypeError)"

fun sum_enabled :: "json list \<Rightarrow> py_exn + int" where
  "sum_enabled [] = Inr 0"
| "sum_enabled (lic # ls) =
     (case py_get lic ''prepaidUnits'' of
        Inl x \<Rightarrow> Inl x
      | Inr pu \<Rightarrow>
          (case py_get (case pu of None \<Rightarrow> JObj [] | Some v \<Rightarrow> v) ''enabled'' of
             Inl x \<Rightarrow> Inl x
           | Inr en \<Rightarrow>
               (case py_num (case en of None \<Rightarrow> JInt 0 | Some v \<Rightarrow> v) of
                  Inl x \<Rightarrow> Inl x
                | Inr n \<Rightarrow>
                    (case sum_enabled ls of Inl x \<Rightarrow> Inl x | Inr r \<Rightarrow> Inr (n + r)))))"

fun sum_consumed :: "json list \<Rightarrow> py_exn + int" where
  "sum_consumed [] = Inr 0"
| "sum_consumed (lic # ls) =
     (case py_get lic ''consumedUnits'' of
        Inl x \<Rightarrow> Inl x
      | Inr cu \<Rightarrow>
          (case py_num (case cu of None \<Rightarrow> JInt 0 | Some v \<Rightarrow> v) of
             Inl x \<Rightarrow> Inl x
           | Inr n \<Rightarrow>
               (case sum_consumed ls of Inl x \<Rightarrow> Inl x | Inr r \<Rightarrow> Inr (n + r))))"

definition license_metrics :: "json \<Rightarrow> py_exn + int \<times> int \<times> int" where
  "license_metrics licenses =
     (case py_iter licenses of
        Inl x \<Rightarrow> Inl x
      | Inr ls \<Rightarrow>
          (case sum_enabled ls of
             Inl x \<Rightarrow> Inl x
           | Inr total_licenses \<Rightarrow>
               (case sum_consumed ls of
                  Inl x \<Rightarrow> Inl x
                | Inr used_licenses \<Rightarrow>
                    Inr (total_licenses, used_licenses, total_licenses - used_licenses))))"

text \<open>The payload (app.py 293-328), with the two numbers the sync snapshot takes
  from it.\<close>

definition build_payload :: "json \<Rightarrow> json \<Rightarrow> json \<Rightarrow> json \<Rightarrow> py_exn + json \<times> int \<times> int" where
  "build_payload users_data licenses_data groups_data sites_data =
     (case value_of users_data of Inl x \<Rightarrow> Inl x | Inr users \<Rightarrow>
     (case value_of licenses_data of Inl x \<Rightarrow> Inl x | Inr licenses \<Rightarrow>
     (case value_of groups_data of Inl x \<Rightarrow> Inl x | Inr groups \<Rightarrow>
     (case value_of sites_data of Inl x \<Rightarrow> Inl x | Inr sites \<Rightarrow>
     (case user_metrics users of Inl x \<Rightarrow> Inl x | Inr (n_users, n_active, n_disabled) \<Rightarrow>
     (case license_metrics licenses of Inl x \<Rightarrow> Inl x | Inr (n_total, n_used, n_avail) \<Rightarrow>
        Inr (JObj [(''users'', users),
                   (''groups'', groups),
                   (''sites'', sites),
                   (''licenses'', licenses),
                   (''metrics'', JObj
                      [(''totalUsers'', JInt n_users),
                       (''activeUsers'', JInt n_active),
                       (''disabledUsers'', JInt n_disabled),
                       (''totalLicenses'', JInt n_total),
                       (''usedLicenses'', JInt n_used),
                       (''availableLicenses'', JInt n_avail),
                       (''userStatus'', JObj [(''active'', JInt n_active), (''disabled'', JInt n_disabled)]),
                       (''licenseStatus'', JObj [(''used'', JInt n_used), (''available'', JInt n_avail)])])],
             n_users, n_total)))))))"

text \<open>The sync snapshot (app.py 332-338): the first record with the id takes the
  time and the two counts.\<close>

fun record_sync :: "string \<Rightarrow> string \<Rightarrow> int \<Rightarrow> int \<Rightarrow> json list \<Rightarrow> py_exn + json list" where
  "record_sync tid now n_users n_total [] = Inr []"
| "record_sync tid now n_users n_total (t # ts) =
     (case t of
        JObj kvs \<Rightarrow>
          if map_of kvs ''id'' = Some (JStr tid)
          then Inr (JObj (AList.update ''licenseCount'' (JInt n_total)
                           (AList.update ''userCount'' (JInt n_users)
                             (AList.update ''lastSync'' (JStr now) kvs))) # ts)
          else (case record_sync tid now n_users n_total ts of
                  Inl x \<Rightarrow> Inl x
                | Inr r \<Rightarrow> Inr (t # r))
      | _ \<Rightarrow> Inl AttributeError)"

text \<open>\<^verbatim>\<open>_collect_tenant_data\<close> (app.py 226-343).\<close>

definition collect_tenant_data :: "'text env \<Rightarrow> string \<Rightarrow> 'text world \<Rightarrow> response \<times> 'text world" where
  "collect_tenant_data e tid w =
     (case get_tenant_credentials e tid w of
        (Inl x, w1) \<Rightarrow> ((Failure x, 500), w1)
      | (Inr (tenant_id_val, client_id, client_secret), w1) \<Rightarrow>
          if \<not> (truthy tenant_id_val \<and> truthy client_id \<and> truthy client_secret)
          then ((error_body ''Tenant not found or missing credentials'', 404), w1)
          else
            let w2 = w1\<lparr>token_requests :=
                         token_requests w1 @ [(tenant_id_val, client_id, client_secret)]\<rparr>
            in (case acquire_token_for_client e tenant_id_val client_id client_secret of
                  Inl x \<Rightarrow> ((Failure x, 500), w2)
                | Inr token \<Rightarrow>
                    (case map_of token ''access_token'' of
                       None \<Rightarrow>
                         ((Body (JObj [(''error'', JStr ''Failed to acquire token for tenant''),
                                       (''details'', JObj token)]), 500), w2)
                     | Some tok \<Rightarrow>
                         (case build_payload (fetch_users e tok) (fetch_licenses e tok)
                                             (fetch_groups e tok) (fetch_sites e tok) of
                            Inl x \<Rightarrow> ((Failure x, 500), w2)
                          | Inr (payload, n_users, n_total) \<Rightarrow>
                              (case read_tenants e w2 of (tenants, w3) \<Rightarrow>
                                 (case py_iter tenants of
                                    Inl x \<Rightarrow> ((Failure x, 500), w3)
                                  | Inr items \<Rightarrow>
                                      (case record_sync tid (now_isoformat e (ticks w3)) n_users n_total items of
                                         Inl x \<Rightarrow> ((Failure x, 500), w3)
                                       | Inr items' \<Rightarrow>
                                           ((Body payload, 200),
                                            write_tenants e (with_items tenants items') w3))))))))"

section \<open>Vocabulary of the properties\<close>

text \<open>A record of the store is a JSON object.\<close>

definition is_record :: "json \<Rightarrow> bool" where
  "is_record t = (case t of JObj kvs \<Rightarrow> True | _ \<Rightarrow> False)"

text \<open>A record whose \<^verbatim>\<open>clientSecret\<close> is a non-empty string outside the envelope
  format: a legacy plaintext secret.\<close>

definition needs_migration :: "json \<Rightarrow> bool" where
  "needs_migration t =
     (case t of
        JObj kvs \<Rightarrow>
          (case map_of kvs ''clientSecret'' of
             Some (JStr s) \<Rightarrow> s \<noteq> [] \<and> \<not> looks_encrypted (JStr s)
           | _ \<Rightarrow> False)
      | _ \<Rightarrow> False)"

text \<open>\<open>migrated e t t'\<close>: \<open>t'\<close> is \<open>t\<close> after the migration. A legacy record keeps
  every field but the secret, which is now in envelope format and decrypts to the old
  plaintext; any other record is the same.\<close>

definition migrated :: "'text env \<Rightarrow> json \<Rightarrow> json \<Rightarrow> bool" where
  "migrated e t t' =
     (if needs_migration t
      then (case (t, t') of
              (JObj kvs, JObj kvs') \<Rightarrow>
                (case (map_of kvs ''clientSecret'', map_of kvs' ''clientSecret'') of
                   (Some s, Some c) \<Rightarrow>
                     kvs' = AList.update ''clientSecret'' c kvs
                     \<and> looks_encrypted c \<and> decrypt_secret e c = s
                 | _ \<Rightarrow> False)
            | _ \<Rightarrow> False)
      else t' = t)"

text \<open>Whether a record carries the identifier the request names.\<close>

definition has_id :: "string \<Rightarrow> json \<Rightarrow> bool" where
  "has_id tid t = (case t of JObj kvs \<Rightarrow> map_of kvs ''id'' = Some (JStr tid) | _ \<Rightarrow> False)"

text \<open>The active gate of credential resolution (app.py 218): an absent
  \<^verbatim>\<open>isActive\<close> counts as inactive.\<close>

definition is_active :: "json \<Rightarrow> bool" where
  "is_active t = (case t of JObj kvs \<Rightarrow> truthy (get_or kvs ''isActive'' (JBool False)) | _ \<Rightarrow> False)"

text \<open>The records a handler sees: the list \<^verbatim>\<open>_read_tenants\<close> returns.\<close>

definition stored_records :: "'text env \<Rightarrow> 'text world \<Rightarrow> json list" where
  "stored_records e w = (case fst (read_tenants e w) of JList ts \<Rightarrow> ts | _ \<Rightarrow> [])"

text \<open>The elements of the list in the file, before any migration.\<close>

definition file_records :: "'text env \<Rightarrow> 'text world \<Rightarrow> json list" where
  "file_records e w =
     (case tenants_file w of
        None \<Rightarrow> []
      | Some txt \<Rightarrow> (case loads e txt of Some (JList ts) \<Rightarrow> ts | _ \<Rightarrow> []))"

text \<open>The form in which \<^verbatim>\<open>create_tenant\<close> and \<^verbatim>\<open>update_tenant\<close> write a record:
  the three names are trimmed strings, \<^verbatim>\<open>isActive\<close> is a boolean, \<^verbatim>\<open>lastSync\<close> is
  present and the two counts are integers.\<close>

definition trimmed_field :: "(string \<times> json) list \<Rightarrow> string \<Rightarrow> bool" where
  "trimmed_field t k = (case map_of t k of Some (JStr s) \<Rightarrow> strip s = s | _ \<Rightarrow> False)"

definition int_field :: "(string \<times> json) list \<Rightarrow> string \<Rightarrow> bool" where
  "int_field t k = (case map_of t k of Some (JInt n) \<Rightarrow> True | _ \<Rightarrow> False)"

definition normal_record :: "(string \<times> json) list \<Rightarrow> bool" where
  "normal_record t =
     (trimmed_field t ''name'' \<and> trimmed_field t ''tenantId'' \<and> trimmed_field t ''clientId''
      \<and> (case map_of t ''isActive'' of Some (JBool b) \<Rightarrow> True | _ \<Rightarrow> False)
      \<and> (case map_of t ''lastSync'' of Some v \<Rightarrow> True | None \<Rightarrow> False)
      \<and> int_field t ''userCount'' \<and> int_field t ''licenseCount'')"

text \<open>A user object of the directory: an object whose \<^verbatim>\<open>accountEnabled\<close>, where
  present, is a boolean or null. It counts as active when the field is true or absent.\<close>

definition is_user :: "json \<Rightarrow> bool" where
  "is_user u =
     (case u of
        JObj kvs \<Rightarrow>
          (case map_of kvs ''accountEnabled'' of
             None \<Rightarrow> True
           | Some v \<Rightarrow> v = JBool True \<or> v = JBool False \<or> v = JNull)
      | _ \<Rightarrow> False)"

definition enabled_or_absent :: "json \<Rightarrow> bool" where
  "enabled_or_absent u =
     (case u of
        JObj kvs \<Rightarrow>
          (case map_of kvs ''accountEnabled'' of None \<Rightarrow> True | Some v \<Rightarrow> v = JBool True)
      | _ \<Rightarrow> False)"

text \<open>A license SKU object: an object whose \<^verbatim>\<open>prepaidUnits\<close>, where present, is an
  object with an integer \<^verbatim>\<open>enabled\<close> or none, and whose \<^verbatim>\<open>consumedUnits\<close>, where
  present, is an integer. The two readings take a missing field as 0.\<close>

definition is_sku :: "json \<Rightarrow> bool" where
  "is_sku lic =
     (case lic of
        JObj kvs \<Rightarrow>
          (case map_of kvs ''prepaidUnits'' of
             None \<Rightarrow> True
           | Some (JObj pu) \<Rightarrow>
               (case map_of pu ''enabled'' of None \<Rightarrow> True | Some (JInt n) \<Rightarrow> True | _ \<Rightarrow> False)
           | _ \<Rightarrow> False)
          \<and> (case map_of kvs ''consumedUnits'' of None \<Rightarrow> True | Some (JInt n) \<Rightarrow> True | _ \<Rightarrow> False)
      | _ \<Rightarrow> False)"

definition enabled_units :: "json \<Rightarrow> int" where
  "enabled_units lic =
     (case lic of
        JObj kvs \<Rightarrow>
          (case map_of kvs ''prepaidUnits'' of
             Some (JObj pu) \<Rightarrow> (case map_of pu ''enabled'' of Some (JInt n) \<Rightarrow> n | _ \<Rightarrow> 0)
           | _ \<Rightarrow> 0)
      | _ \<Rightarrow> 0)"

definition consumed_units :: "json \<Rightarrow> int" where
  "consumed_units lic =
     (case lic of
        JObj kvs \<Rightarrow> (case map_of kvs ''consumedUnits'' of Some (JInt n) \<Rightarrow> n | _ \<Rightarrow> 0)
      | _ \<Rightarrow> 0)"

text \<open>\<^verbatim>\<open>payload['metrics'][k]\<close> of a returned payload.\<close>

definition metric :: "json \<Rightarrow> string \<Rightarrow> json option" where
  "metric payload k =
     (case payload of
        JObj kvs \<Rightarrow> (case map_of kvs ''metrics'' of Some (JObj m) \<Rightarrow> map_of m k | _ \<Rightarrow> None)
      | _ \<Rightarrow> None)"

text \<open>How one of the four fetches ends: it failed (the request raised, the status
  is one for which \<^verbatim>\<open>raise_for_status\<close> raises, or the body is not JSON), or it
  returned an object whose \<^verbatim>\<open>value\<close> is the list \<open>xs\<close>. \<open>settled\<close>: it failed and
  \<open>xs\<close> is empty, or it returned \<open>xs\<close>.\<close>

definition failed :: "'text env \<Rightarrow> string \<Rightarrow> json \<Rightarrow> bool" where
  "failed e url tok =
     (case requests_get e url tok of
        ConnectionFailed \<Rightarrow> True
      | Response st b \<Rightarrow> (400 \<le> st \<and> st < 600) \<or> b = None)"

definition returned :: "'text env \<Rightarrow> string \<Rightarrow> json \<Rightarrow> json list \<Rightarrow> bool" where
  "returned e url tok xs =
     (case requests_get e url tok of
        Response st (Some (JObj kvs)) \<Rightarrow>
          \<not> (400 \<le> st \<and> st < 600) \<and> map_of kvs ''value'' = Some (JList xs)
      | _ \<Rightarrow> False)"

definition settled :: "'text env \<Rightarrow> string \<Rightarrow> json \<Rightarrow> json list \<Rightarrow> bool" where
  "settled e url tok xs = ((failed e url tok \<and> xs = []) \<or> returned e url tok xs)"

text \<open>
  Two \<^verbatim>\<open>create_tenant\<close> requests \<open>a\<close> and \<open>b\<close> on two threads, in the schedule
  that the lock allows because it is released between \<^verbatim>\<open>_read_tenants\<close> and
  \<^verbatim>\<open>_write_tenants\<close>: \<open>a\<close> runs lines 129-146, then \<open>b\<close> runs lines 129-146,
  then \<open>a\<close> runs lines 147-152, then \<open>b\<close> runs lines 147-152. The result is the two
  responses and the final state, or \<open>None\<close> when a request ends before its write.
\<close>

definition interleaved_creates ::
  "'text env \<Rightarrow> (string \<times> json) list \<Rightarrow> (string \<times> json) list \<Rightarrow> 'text world
     \<Rightarrow> (response \<times> response \<times> 'text world) option" where
  "interleaved_creates e a b w =
     (case create_begin e a w of
        (Inr pending_a, w1) \<Rightarrow>
          (case create_begin e b w1 of
             (Inr pending_b, w2) \<Rightarrow>
               (case create_finish e pending_a w2 of
                  (ra, w3) \<Rightarrow>
                    (case create_finish e pending_b w3 of
                       (rb, w4) \<Rightarrow> Some (ra, rb, w4)))
           | _ \<Rightarrow> None)
      | _ \<Rightarrow> None)"

section \<open>A concrete environment\<close>

text \<open>A small instance of the libraries, on which the definitions can be run: the
  text of the file is the JSON value itself, and a token is a fixed envelope prefix
  followed by the plaintext.\<close>

definition sample_prefix :: string where
  "sample_prefix = ''gAAAAAAAAAAAAAAAAAAAA''"

definition sample_get :: "string \<Rightarrow> json \<Rightarrow> http_result" where
  "sample_get url tok =
     (if url = users_url
        then Response 200 (Some (JObj [(''value'',
               JList [JObj [(''accountEnabled'', JBool True)],
                      JObj [(''accountEnabled'', JBool False)],
                      JObj []])]))
      else if url = licenses_url
        then Response 200 (Some (JObj [(''value'',
               JList [JObj [(''prepaidUnits'', JObj [(''enabled'', JInt 10)]), (''consumedUnits'', JInt 4)],
                      JObj [(''prepaidUnits'', JObj [(''enabled'', JInt 5)]), (''consumedUnits'', JInt 5)]])]))
      else if url = groups_url
        then Response 200 (Some (JObj [(''value'', JList [JObj [(''displayName'', JStr ''g1'')]])]))
      else Response 200 (Some (JObj [(''value'', JList [JObj [(''name'', JStr ''s1'')]])])))"

definition sample_env :: "json env" where
  "sample_env =
     \<lparr>loads = Some,
      dumps = (\<lambda>j. j),
      fernet_encrypt = (\<lambda>n p. sample_prefix @ p),
      fernet_decrypt = (\<lambda>c. if take 21 c = sample_prefix then Some (drop 21 c) else None),
      uuid4 = (\<lambda>n. replicate (Suc n) CHR ''u''),
      now_isoformat = (\<lambda>n. ''2025-01-01T00:00:00''),
      repr_of = (\<lambda>v. ''?''),
      int_of_str = (\<lambda>s. None),
      acquire_token_for_client = (\<lambda>a b c. Inr [(''access_token'', JStr ''tok'')]),
      requests_get = sample_get\<rparr>"

definition world_of :: "json \<Rightarrow> json world" where
  "world_of j = \<lparr>tenants_file = Some j, writes = 0, ticks = 0, token_requests = []\<rparr>"

text \<open>A store with a legacy plaintext secret in its first record and a secret in
  envelope format in its second, inactive one.\<close>

definition contoso :: "(string \<times> json) list" where
  "contoso =
     [(''id'', JStr ''t1''), (''name'', JStr ''Contoso''), (''tenantId'', JStr ''dir-1''),
      (''clientId'', JStr ''app-1''), (''clientSecret'', JStr ''hunter2''),
      (''isActive'', JBool True), (''lastSync'', JStr []),
      (''userCount'', JInt 0), (''licenseCount'', JInt 0)]"

definition fabrikam :: "(string \<times> json) list" where
  "fabrikam =
     [(''id'', JStr ''t2''), (''name'', JStr ''Fabrikam''), (''tenantId'', JStr ''dir-2''),
      (''clientId'', JStr ''app-2''), (''clientSecret'', JStr ''gAAAAAAAAAAAAAAAAAAAAs3cret''),
      (''isActive'', JBool False), (''lastSync'', JStr []),
      (''userCount'', JInt 0), (''licenseCount'', JInt 0)]"

definition legacy_store :: json where
  "legacy_store = JList [JObj contoso, JObj fabrikam]"

text \<open>A creation request whose secret is padded with blanks.\<close>

definition northwind_payload :: "(string \<times> json) list" where
  "northwind_payload =
     [(''name'', JStr ''Northwind''), (''tenantId'', JStr ''dir-3''),
      (''clientId'', JStr ''app-3''), (''clientSecret'', JStr '' pa55 '')]"

text \<open>A record whose name is padded and whose user count is null.\<close>

definition tailspin :: "(string \<times> json) list" where
  "tailspin =
     [(''id'', JStr ''t3''), (''name'', JStr '' Tailspin ''), (''tenantId'', JStr ''dir-4''),
      (''clientId'', JStr ''app-4''), (''clientSecret'', JStr ''gAAAAAAAAAAAAAAAAAAAAtoys''),
      (''isActive'', JBool True), (''lastSync'', JStr []),
      (''userCount'', JNull), (''licenseCount'', JInt 0)]"

text \<open>A second creation request.\<close>

definition litware_payload :: "(string \<times> json) list" where
  "litware_payload =
     [(''name'', JStr ''Litware''), (''tenantId'', JStr ''dir-5''),
      (''clientId'', JStr ''app-5''), (''clientSecret'', JStr ''qwerty'')]"

text \<open>The environment with the users endpoint answering 503, and with the users
  endpoint answering 300 with a JSON body.\<close>

definition ada :: json where
  "ada = JObj [(''displayName'', JStr ''ada'')]"

definition outage_env :: "json env" where
  "outage_env =
     sample_env\<lparr>requests_get :=
       (\<lambda>url tok. if url = users_url
                   then Response 503 (Some (JObj [(''value'', JList [ada])]))
                   else sample_get url tok)\<rparr>"

definition redirect_env :: "json env" where
  "redirect_env =
     sample_env\<lparr>requests_get :=
       (\<lambda>url tok. if url = users_url
                   then Response 300 (Some (JObj [(''value'', JList [ada])]))
                   else sample_get url tok)\<rparr>"

text \<open>The environment with more license units consumed than enabled.\<close>

definition oversold_env :: "json env" where
  "oversold_env =
     sample_env\<lparr>requests_get :=
       (\<lambda>url tok. if url = licenses_url
                   then Response 200 (Some (JObj [(''value'',
                          JList [JObj [(''prepaidUnits'', JObj [(''enabled'', JInt 1)]),
                                       (''consumedUnits'', JInt 3)],
                                 JObj [(''prepaidUnits'', JObj [])],
                                 JObj []])]))
                   else sample_get url tok)\<rparr>"

section \<open>The concrete environment meets the library assumptions\<close>

lemma sample_fernet_ok: "fernet_ok sample_env"
  by (simp add: fernet_ok_def sample_env_def sample_prefix_def looks_encrypted_def)

lemma sample_json_ok: "json_ok sample_env"
  by (simp add: json_ok_def sample_env_def)

lemmas run_defs =
  create_tenant_def create_begin_def create_finish_def has_required_def required_def
  py_str_def strip_def is_space_def read_tenants_def write_tenants_def with_items_def
  world_of_def sample_env_def sample_prefix_def py_int_def or_zero_def get_or_def Let_def
  tick_def redact_def encrypt_secret_def migrate_record_def looks_encrypted_def
  error_body_def

lemmas store_defs = stored_records_def read_tenants_def write_tenants_def with_items_def
  world_of_def sample_env_def sample_prefix_def legacy_store_def contoso_def fabrikam_def
  migrate_record_def looks_encrypted_def encrypt_secret_def

section \<open>What a read returns\<close>

lemma migrate_loop_shape:
  "migrate_loop e items ch n = (Inr (items', ch'), n') \<Longrightarrow>
   list_all is_record items \<and> list_all is_record items' \<and> length items' = length items"
proof (induction items arbitrary: ch n items' ch' n')
  case Nil
  then show ?case by simp
next
  case (Cons t ts)
  from Cons.prems obtain t' c where r: "migrate_record e n t = Inr (t', c)"
    by (cases "migrate_record e n t") (auto)
  then have rec: "is_record t" "is_record t'"
    by (auto simp: migrate_record_def is_record_def split: json.splits option.splits if_splits)
  from Cons.prems r obtain ts' n1 where
    l: "migrate_loop e ts (ch \<or> c) (if c then Suc n else n) = (Inr (ts', ch'), n1)"
    and i: "items' = t' # ts'"
    by (auto split: prod.splits sum.splits)
  from Cons.IH [OF l] rec i show ?case by simp
qed

lemma keys_not_records: "list_all is_record (map (\<lambda>kv. JStr (fst kv)) kvs) \<Longrightarrow> kvs = []"
  by (cases kvs) (simp_all add: is_record_def)

lemma chars_not_records: "list_all is_record (map (\<lambda>c. JStr [c]) s) \<Longrightarrow> s = []"
  by (cases s) (simp_all add: is_record_def)

lemma with_items_iter:
  assumes "py_iter tenants = Inr items" "list_all is_record items" "length items' = length items"
  shows "py_iter (with_items tenants items') = Inr items'
       \<and> py_len (with_items tenants items') = Inr (int (length items'))
       \<and> (case with_items tenants items' of JList ts \<Rightarrow> ts | _ \<Rightarrow> []) = items'"
proof (cases tenants)
  case (JList xs)
  then show ?thesis by (simp add: with_items_def)
next
  case (JObj kvs)
  with assms(1,2) have "kvs = []" by (auto dest: keys_not_records)
  with JObj assms show ?thesis by (auto simp: with_items_def)
next
  case (JStr s)
  with assms(1,2) have "s = []" by (auto dest: chars_not_records)
  with JStr assms show ?thesis by (auto simp: with_items_def)
qed (use assms in simp_all)

lemma read_tenants_result:
  "fst (read_tenants e w) = JList []
   \<or> (\<exists>tenants items items' ch n. py_iter tenants = Inr items
         \<and> migrate_loop e items False (ticks w) = (Inr (items', ch), n)
         \<and> fst (read_tenants e w) = with_items tenants items')"
proof (cases "tenants_file w")
  case None
  then show ?thesis by (simp add: read_tenants_def)
next
  case (Some content)
  show ?thesis
  proof (cases "loads e content")
    case None
    with Some show ?thesis by (simp add: read_tenants_def)
  next
    case tenants: (Some tenants)
    show ?thesis
    proof (cases "py_iter tenants")
      case (Inl x)
      with Some tenants show ?thesis by (simp add: read_tenants_def)
    next
      case (Inr items)
      obtain r n where m: "migrate_loop e items False (ticks w) = (r, n)"
        by (cases "migrate_loop e items False (ticks w)")
      show ?thesis
      proof (cases r)
        case (Inl x)
        with Some tenants Inr m show ?thesis by (simp add: read_tenants_def)
      next
        case r: (Inr p)
        obtain items' ch where p: "p = (items', ch)" by (cases p)
        have "fst (read_tenants e w) = with_items tenants items'"
          using Some tenants Inr m r p by (simp add: read_tenants_def)
        with Inr m r p show ?thesis by blast
      qed
    qed
  qed
qed

lemma read_tenants_shape:
  "py_iter (fst (read_tenants e w)) = Inr (stored_records e w)
   \<and> py_len (fst (read_tenants e w)) = Inr (int (length (stored_records e w)))
   \<and> list_all is_record (stored_records e w)"
  using read_tenants_result [of e w]
proof (elim disjE exE conjE)
  assume "fst (read_tenants e w) = JList []"
  then show ?thesis by (simp add: stored_records_def)
next
  fix tenants items items' ch n
  assume it: "py_iter tenants = Inr items"
    and ml: "migrate_loop e items False (ticks w) = (Inr (items', ch), n)"
    and rd: "fst (read_tenants e w) = with_items tenants items'"
  from migrate_loop_shape [OF ml] have
    s: "list_all is_record items" "list_all is_record items'" "length items' = length items"
    by simp_all
  from with_items_iter [OF it s(1) s(3)] rd s(2)
  show ?thesis by (simp add: stored_records_def)
qed

lemma read_tenants_token_requests:
  "token_requests (snd (read_tenants e w)) = token_requests w"
  by (simp add: read_tenants_def write_tenants_def split: option.splits sum.splits prod.splits)

section \<open>Migration on read\<close>

lemma migrate_record_keep:
  "is_record t \<Longrightarrow> \<not> needs_migration t \<Longrightarrow> migrate_record e n t = Inr (t, False)"
  by (auto simp: migrate_record_def is_record_def needs_migration_def
           split: json.splits option.splits)

lemma migrate_record_legacy:
  assumes "fernet_ok e" "needs_migration t"
  shows "\<exists>t'. migrate_record e n t = Inr (t', True) \<and> migrated e t t'
              \<and> is_record t' \<and> \<not> needs_migration t'"
proof -
  from assms(2) obtain kvs where t: "t = JObj kvs"
    by (cases t) (simp_all add: needs_migration_def)
  with assms(2) obtain v where v: "map_of kvs ''clientSecret'' = Some v"
    by (cases "map_of kvs ''clientSecret''") (simp_all add: needs_migration_def)
  with assms(2) t obtain s where
    s: "map_of kvs ''clientSecret'' = Some (JStr s)" "s \<noteq> []" "\<not> looks_encrypted (JStr s)"
    by (cases v) (simp_all add: needs_migration_def)
  let ?c = "fernet_encrypt e n s"
  from assms(1) have c: "looks_encrypted (JStr ?c)" "fernet_decrypt e ?c = Some s"
    by (simp_all add: fernet_ok_def)
  from c(1) have ne: "?c \<noteq> []" by (auto simp: looks_encrypted_def)
  have dec: "decrypt_secret e (JStr ?c) = JStr s"
    using c ne by (simp add: decrypt_secret_def)
  show ?thesis
    using t s c dec
    by (simp add: migrate_record_def encrypt_secret_def migrated_def needs_migration_def
                  is_record_def AList.update_conv')
qed

lemma migrate_loop_spec:
  assumes "fernet_ok e"
  shows "list_all is_record ts \<Longrightarrow>
         \<exists>ts' n'. migrate_loop e ts ch n = (Inr (ts', ch \<or> list_ex needs_migration ts), n')
                \<and> list_all2 (migrated e) ts ts'
                \<and> list_all is_record ts' \<and> \<not> list_ex needs_migration ts'"
proof (induction ts arbitrary: ch n)
  case Nil
  then show ?case by simp
next
  case (Cons t ts)
  then have rec: "is_record t" and rest: "list_all is_record ts" by simp_all
  show ?case
  proof (cases "needs_migration t")
    case True
    from migrate_record_legacy [OF assms True, of n] obtain t' where
      t': "migrate_record e n t = Inr (t', True)" "migrated e t t'" "is_record t'" "\<not> needs_migration t'"
      by blast
    from Cons.IH [OF rest, of True "Suc n"] obtain ts' n' where
      "migrate_loop e ts True (Suc n) = (Inr (ts', True), n')"
      "list_all2 (migrated e) ts ts'" "list_all is_record ts'" "\<not> list_ex needs_migration ts'"
      by auto
    with t' True show ?thesis by simp
  next
    case False
    have t': "migrate_record e n t = Inr (t, False)"
      by (rule migrate_record_keep [OF rec False])
    from Cons.IH [OF rest, of ch n] obtain ts' n' where
      "migrate_loop e ts ch n = (Inr (ts', ch \<or> list_ex needs_migration ts), n')"
      "list_all2 (migrated e) ts ts'" "list_all is_record ts'" "\<not> list_ex needs_migration ts'"
      by auto
    moreover have "migrated e t t" using False by (simp add: migrated_def)
    ultimately show ?thesis using t' False rec by simp
  qed
qed

lemma migrate_loop_clean:
  "list_all is_record ts \<Longrightarrow> \<not> list_ex needs_migration ts \<Longrightarrow>
   migrate_loop e ts ch n = (Inr (ts, ch), n)"
  by (induction ts arbitrary: ch n) (simp_all add: migrate_record_keep)

lemma migrated_clean:
  "\<not> list_ex needs_migration ts \<Longrightarrow> list_all2 (migrated e) ts ts' \<Longrightarrow> ts' = ts"
proof (induction ts arbitrary: ts')
  case Nil
  then show ?case by simp
next
  case (Cons t ts)
  from Cons.prems(2) obtain u us where u: "ts' = u # us" "migrated e t u" "list_all2 (migrated e) ts us"
    by (auto simp: list_all2_Cons1)
  from Cons.prems(1) have nm: "\<not> needs_migration t" "\<not> list_ex needs_migration ts" by simp_all
  have "u = t" using u(2) nm(1) by (simp add: migrated_def)
  moreover have "us = ts" using nm(2) u(3) by (rule Cons.IH)
  ultimately show ?case using u(1) by simp
qed

text \<open>
  C1. When the store file holds a list of records, \<^verbatim>\<open>_read_tenants\<close> returns that
  list with every legacy plaintext secret replaced by a token in envelope format that
  decrypts to the old plaintext and with every other record unchanged; the file is
  written (once, with the returned list) if and only if some record was migrated; and a
  second read returns the same list and changes nothing, so it does not write again.
\<close>

theorem read_tenants_migration:
  assumes "fernet_ok e" and "json_ok e"
    and "tenants_file w = Some txt" and "loads e txt = Some (JList ts)"
    and "list_all is_record ts"
  shows "\<exists>ts'. fst (read_tenants e w) = JList ts'
            \<and> list_all2 (migrated e) ts ts'
            \<and> writes (snd (read_tenants e w))
                = (if list_ex needs_migration ts then Suc (writes w) else writes w)
            \<and> tenants_file (snd (read_tenants e w))
                = (if list_ex needs_migration ts then Some (dumps e (JList ts')) else Some txt)
            \<and> read_tenants e (snd (read_tenants e w)) = (JList ts', snd (read_tenants e w))"
proof -
  from migrate_loop_spec [OF assms(1) assms(5), of False "ticks w"] obtain ts' n' where
    loop: "migrate_loop e ts False (ticks w) = (Inr (ts', list_ex needs_migration ts), n')"
    and rel: "list_all2 (migrated e) ts ts'"
    and recs: "list_all is_record ts'" and clean: "\<not> list_ex needs_migration ts'"
    by auto
  let ?w1 = "w\<lparr>ticks := n'\<rparr>"
  let ?w' = "if list_ex needs_migration ts then write_tenants e (JList ts') ?w1 else ?w1"
  have rd: "read_tenants e w = (JList ts', ?w')"
    using assms(3,4) loop by (simp add: read_tenants_def with_items_def)
  have file': "tenants_file ?w' = Some (if list_ex needs_migration ts then dumps e (JList ts') else txt)"
    using assms(3) by (simp add: write_tenants_def)
  have same: "\<not> list_ex needs_migration ts \<Longrightarrow> ts' = ts"
    using rel by (simp add: migrated_clean)
  have loads': "loads e (if list_ex needs_migration ts then dumps e (JList ts') else txt) = Some (JList ts')"
    using assms(2,4) same by (auto simp: json_ok_def)
  have ticks': "ticks ?w' = n'" by (simp add: write_tenants_def)
  have again: "read_tenants e ?w' = (JList ts', ?w')"
    using file' loads' ticks' migrate_loop_clean [OF recs clean, of e False n']
    by (simp add: read_tenants_def with_items_def write_tenants_def)
  show ?thesis
    using rd rel again assms(3) by (auto simp: write_tenants_def)
qed

theorem read_tenants_migration_witness:
  "fernet_ok sample_env \<and> json_ok sample_env
   \<and> tenants_file (world_of legacy_store) = Some legacy_store
   \<and> loads sample_env legacy_store = Some (JList [JObj contoso, JObj fabrikam])
   \<and> list_all is_record [JObj contoso, JObj fabrikam]
   \<and> needs_migration (JObj contoso) \<and> \<not> needs_migration (JObj fabrikam)
   \<and> fst (read_tenants sample_env (world_of legacy_store))
       = JList [JObj (AList.update ''clientSecret'' (JStr ''gAAAAAAAAAAAAAAAAAAAAhunter2'') contoso),
                JObj fabrikam]
   \<and> writes (snd (read_tenants sample_env (world_of legacy_store))) = 1
   \<and> read_tenants sample_env (snd (read_tenants sample_env (world_of legacy_store)))
       = (fst (read_tenants sample_env (world_of legacy_store)),
          snd (read_tenants sample_env (world_of legacy_store)))"
proof -
  have f: "tenants_file (world_of legacy_store) = Some legacy_store"
    by (simp add: world_of_def)
  have l: "loads sample_env legacy_store = Some (JList [JObj contoso, JObj fabrikam])"
    by (simp add: sample_env_def legacy_store_def)
  have r: "list_all is_record [JObj contoso, JObj fabrikam]"
    by (simp add: is_record_def)
  have n: "needs_migration (JObj contoso)" "\<not> needs_migration (JObj fabrikam)"
    by (simp_all add: needs_migration_def contoso_def fabrikam_def looks_encrypted_def)
  have v: "fst (read_tenants sample_env (world_of legacy_store))
       = JList [JObj (AList.update ''clientSecret'' (JStr ''gAAAAAAAAAAAAAAAAAAAAhunter2'') contoso),
                JObj fabrikam]"
    by (simp add: world_of_def legacy_store_def sample_env_def contoso_def fabrikam_def
          looks_encrypted_def read_tenants_def migrate_record_def encrypt_secret_def
          with_items_def write_tenants_def sample_prefix_def)
  from read_tenants_migration [OF sample_fernet_ok sample_json_ok f l r] n v
  show ?thesis
    by (auto simp: sample_fernet_ok sample_json_ok f l is_record_def world_of_def)
qed

section \<open>Encryption round trip\<close>

lemma round_trip: "fernet_ok e \<Longrightarrow> decrypt_secret e (JStr (encrypt_secret e n (Some p))) = JStr p"
proof -
  assume ok: "fernet_ok e"
  let ?c = "fernet_encrypt e n p"
  from ok have c: "looks_encrypted (JStr ?c)" "fernet_decrypt e ?c = Some p"
    by (simp_all add: fernet_ok_def)
  from c(1) have "?c \<noteq> []" by (auto simp: looks_encrypted_def)
  with c show ?thesis by (simp add: decrypt_secret_def encrypt_secret_def)
qed

lemma create_begin_pending:
  assumes "create_begin e payload w = (Inr (tenants, item), w1)"
  shows "\<exists>ts n v. tenants = JList (JObj item # ts)
           \<and> map_of payload ''clientSecret'' = Some v
           \<and> map_of item ''clientSecret'' = Some (JStr (encrypt_secret e n (Some (strip (py_str e v)))))"
proof -
  from assms have req: "has_required e payload"
    by (auto simp: create_begin_def split: if_splits)
  then obtain v where v: "map_of payload ''clientSecret'' = Some v"
    by (auto simp: has_required_def required_def split: option.splits)
  obtain t0 w0 where rd: "read_tenants e w = (t0, w0)" by (cases "read_tenants e w")
  show ?thesis
    using assms req v rd
    by (auto simp: create_begin_def Let_def get_or_def split: sum.splits json.splits)
qed

text \<open>
  C2. When Fernet decrypts its own tokens, \<^verbatim>\<open>_decrypt_secret\<close> of
  \<^verbatim>\<open>_encrypt_secret\<close> of a plaintext is that plaintext; and when
  \<^verbatim>\<open>create_tenant\<close> answers 201, the record it has put at the head of the stored
  list holds a secret that decrypts to the trimmed \<^verbatim>\<open>clientSecret\<close> of the request.
\<close>

theorem secret_round_trip:
  assumes "fernet_ok e"
  shows "decrypt_secret e (JStr (encrypt_secret e n (Some p))) = JStr p
     \<and> (create_tenant e payload w = ((Body r, 201), w') \<longrightarrow>
          (\<exists>item ts c v. tenants_file w' = Some (dumps e (JList (JObj item # ts)))
             \<and> map_of item ''clientSecret'' = Some c
             \<and> map_of payload ''clientSecret'' = Some v
             \<and> decrypt_secret e c = JStr (strip (py_str e v))))"
proof (intro conjI impI)
  show "decrypt_secret e (JStr (encrypt_secret e n (Some p))) = JStr p"
    using assms by (rule round_trip)
next
  assume c: "create_tenant e payload w = ((Body r, 201), w')"
  obtain res w1 where b: "create_begin e payload w = (res, w1)" by (cases "create_begin e payload w")
  have not_early: "\<And>x. res \<noteq> Inl (x, 201)"
    using b by (auto simp: create_begin_def Let_def split: if_splits prod.splits sum.splits json.splits)
  with c b obtain tenants item where p: "res = Inr (tenants, item)"
    by (cases res) (auto simp: create_tenant_def)
  from create_begin_pending [OF b [unfolded p]] obtain ts k v where
    t: "tenants = JList (JObj item # ts)" "map_of payload ''clientSecret'' = Some v"
       "map_of item ''clientSecret'' = Some (JStr (encrypt_secret e k (Some (strip (py_str e v)))))"
    by blast
  from c b p have "w' = write_tenants e tenants w1"
    by (simp add: create_tenant_def create_finish_def)
  then have "tenants_file w' = Some (dumps e (JList (JObj item # ts)))"
    using t(1) by (simp add: write_tenants_def)
  with t round_trip [OF assms, of k "strip (py_str e v)"]
  show "\<exists>item ts c v. tenants_file w' = Some (dumps e (JList (JObj item # ts)))
             \<and> map_of item ''clientSecret'' = Some c
             \<and> map_of payload ''clientSecret'' = Some v
             \<and> decrypt_secret e c = JStr (strip (py_str e v))"
    by blast
qed

theorem secret_round_trip_witness:
  "fernet_ok sample_env
   \<and> decrypt_secret sample_env (JStr (encrypt_secret sample_env 0 (Some ''pa55''))) = JStr ''pa55''
   \<and> snd (fst (create_tenant sample_env northwind_payload (world_of (JList [])))) = 201
   \<and> (\<exists>item ts c.
         tenants_file (snd (create_tenant sample_env northwind_payload (world_of (JList []))))
           = Some (dumps sample_env (JList (JObj item # ts)))
         \<and> map_of item ''clientSecret'' = Some c
         \<and> decrypt_secret sample_env c = JStr ''pa55'')"
proof -
  let ?r = "JObj [(''id'', JStr ''u''), (''name'', JStr ''Northwind''),
       (''tenantId'', JStr ''dir-3''), (''clientId'', JStr ''app-3''),
       (''isActive'', JBool True), (''lastSync'', JStr []),
       (''userCount'', JInt 0), (''licenseCount'', JInt 0),
       (''hasSecret'', JBool True)]"
  let ?w = "\<lparr>tenants_file =
     Some
      (JList
        [JObj
          [(''id'', JStr ''u''), (''name'', JStr ''Northwind''),
           (''tenantId'', JStr ''dir-3''), (''clientId'', JStr ''app-3''),
           (''clientSecret'', JStr ''gAAAAAAAAAAAAAAAAAAAApa55''),
           (''isActive'', JBool True), (''lastSync'', JStr []),
           (''userCount'', JInt 0), (''licenseCount'', JInt 0)]]),
     writes = 1, ticks = 2, token_requests = []\<rparr>"
  have cr: "create_tenant sample_env northwind_payload (world_of (JList [])) = ((Body ?r, 201), ?w)"
    by (simp add: run_defs northwind_payload_def)
  have v: "map_of northwind_payload ''clientSecret'' = Some (JStr '' pa55 '')"
    by (simp add: northwind_payload_def)
  have s: "strip (py_str sample_env (JStr '' pa55 '')) = ''pa55''"
    by (simp add: py_str_def strip_def is_space_def)
  from secret_round_trip [OF sample_fernet_ok, of 0 "''pa55''" northwind_payload "world_of (JList [])" ?r ?w]
  show ?thesis
    using cr v s sample_fernet_ok by auto
qed

section \<open>Metrics\<close>

lemma active_filter_users:
  "list_all is_user us \<Longrightarrow> active_filter us = Inr (filter enabled_or_absent us)"
proof (induction us)
  case Nil
  then show ?case by simp
next
  case (Cons u us)
  from Cons.prems have u: "is_user u" and rest: "list_all is_user us" by simp_all
  from u obtain kvs where k: "u = JObj kvs" by (cases u) (simp_all add: is_user_def)
  have "truthy (case map_of kvs ''accountEnabled'' of None \<Rightarrow> JBool True | Some v \<Rightarrow> v)
          = enabled_or_absent u"
    using u k by (auto simp: is_user_def enabled_or_absent_def split: option.splits)
  with k Cons.IH [OF rest] show ?case by simp
qed

lemma sum_enabled_skus:
  "list_all is_sku ls \<Longrightarrow> sum_enabled ls = Inr (sum_list (map enabled_units ls))"
proof (induction ls)
  case Nil
  then show ?case by simp
next
  case (Cons l ls)
  from Cons.prems have l: "is_sku l" and rest: "list_all is_sku ls" by simp_all
  from l obtain kvs where k: "l = JObj kvs" by (cases l) (simp_all add: is_sku_def)
  show ?case
    using l k Cons.IH [OF rest]
    by (auto simp: is_sku_def enabled_units_def py_num_def split: option.splits json.splits)
qed

lemma sum_consumed_skus:
  "list_all is_sku ls \<Longrightarrow> sum_consumed ls = Inr (sum_list (map consumed_units ls))"
proof (induction ls)
  case Nil
  then show ?case by simp
next
  case (Cons l ls)
  from Cons.prems have l: "is_sku l" and rest: "list_all is_sku ls" by simp_all
  from l obtain kvs where k: "l = JObj kvs" by (cases l) (simp_all add: is_sku_def)
  show ?case
    using l k Cons.IH [OF rest]
    by (auto simp: is_sku_def consumed_units_def py_num_def split: option.splits json.splits)
qed

lemma record_sync_total:
  "list_all is_record items \<Longrightarrow> \<exists>r. record_sync tid now a b items = Inr r"
proof (induction items)
  case Nil
  then show ?case by simp
next
  case (Cons t ts)
  from Cons.prems obtain kvs where k: "t = JObj kvs"
    by (cases t) (simp_all add: is_record_def)
  from Cons obtain r where "record_sync tid now a b ts = Inr r" by auto
  with k show ?case by simp
qed

lemma settled_value:
  assumes "settled e url tok xs"
  shows "value_of (fetch e url tok) = Inr (JList xs)"
proof (cases "requests_get e url tok")
  case ConnectionFailed
  with assms show ?thesis
    by (simp add: settled_def failed_def returned_def fetch_def empty_value_def value_of_def)
next
  case (Response st b)
  show ?thesis
  proof (cases "400 \<le> st \<and> st < 600")
    case True
    with Response assms show ?thesis
      by (auto simp: settled_def failed_def returned_def fetch_def empty_value_def value_of_def
               split: option.splits json.splits)
  next
    case False
    show ?thesis
    proof (cases b)
      case None
      with Response False assms show ?thesis
        by (auto simp: settled_def failed_def returned_def fetch_def empty_value_def value_of_def)
    next
      case (Some j)
      with Response False assms obtain kvs where "j = JObj kvs" "map_of kvs ''value'' = Some (JList xs)"
        by (cases j) (auto simp: settled_def failed_def returned_def)
      with Response False Some show ?thesis
        by (auto simp: fetch_def value_of_def)
    qed
  qed
qed

lemma user_metrics_users:
  assumes "list_all is_user us"
  shows "user_metrics (JList us)
           = Inr (int (length us),
                  int (length (filter enabled_or_absent us)),
                  int (length us) - int (length (filter enabled_or_absent us)))"
  using active_filter_users [OF assms] by (simp add: user_metrics_def)

lemma license_metrics_skus:
  assumes "list_all is_sku ls"
  shows "license_metrics (JList ls)
           = Inr (sum_list (map enabled_units ls),
                  sum_list (map consumed_units ls),
                  sum_list (map enabled_units ls) - sum_list (map consumed_units ls))"
  using sum_enabled_skus [OF assms] sum_consumed_skus [OF assms]
  by (simp add: license_metrics_def)

text \<open>Once the credentials resolve and the token request gives an access token, the
  pipeline answers 200 with the payload that lines 293-328 build from the four fetches.\<close>

lemma collect_returns_payload:
  assumes creds: "fst (get_tenant_credentials e tid w) = Inr (a, b, c)"
      "truthy a" "truthy b" "truthy c"
    and token: "acquire_token_for_client e a b c = Inr token"
      "map_of token ''access_token'' = Some tok"
    and built: "build_payload (fetch_users e tok) (fetch_licenses e tok)
                  (fetch_groups e tok) (fetch_sites e tok) = Inr (payload, n, m)"
  shows "fst (collect_tenant_data e tid w) = (Body payload, 200)"
proof -
  obtain w1 where g: "get_tenant_credentials e tid w = (Inr (a, b, c), w1)"
    using creds(1) by (cases "get_tenant_credentials e tid w") simp
  let ?w2 = "w1\<lparr>token_requests := token_requests w1 @ [(a, b, c)]\<rparr>"
  obtain tenants w3 where rd: "read_tenants e ?w2 = (tenants, w3)"
    by (cases "read_tenants e ?w2")
  from read_tenants_shape [of e ?w2] rd have
    it: "py_iter tenants = Inr (stored_records e ?w2)"
    and rc: "list_all is_record (stored_records e ?w2)" by simp_all
  from record_sync_total [OF rc] obtain r where
    rs: "record_sync tid (now_isoformat e (ticks w3)) n m (stored_records e ?w2) = Inr r"
    by blast
  show ?thesis
    using g creds(2-4) token built rd it rs
    by (simp add: collect_tenant_data_def Let_def)
qed

text \<open>The payload for four settled fetches of user objects and SKU objects, with
  every metric written out.\<close>

lemma settled_payload:
  assumes "settled e users_url tok us" "settled e licenses_url tok ls"
      "settled e groups_url tok gs" "settled e sites_url tok ss"
    and "list_all is_user us" "list_all is_sku ls"
  shows "build_payload (fetch_users e tok) (fetch_licenses e tok)
           (fetch_groups e tok) (fetch_sites e tok)
         = Inr (JObj
             [(''users'', JList us), (''groups'', JList gs), (''sites'', JList ss),
              (''licenses'', JList ls),
              (''metrics'', JObj
                 [(''totalUsers'', JInt (int (length us))),
                  (''activeUsers'', JInt (int (length (filter enabled_or_absent us)))),
                  (''disabledUsers'',
                     JInt (int (length us) - int (length (filter enabled_or_absent us)))),
                  (''totalLicenses'', JInt (sum_list (map enabled_units ls))),
                  (''usedLicenses'', JInt (sum_list (map consumed_units ls))),
                  (''availableLicenses'',
                     JInt (sum_list (map enabled_units ls) - sum_list (map consumed_units ls))),
                  (''userStatus'', JObj
                     [(''active'', JInt (int (length (filter enabled_or_absent us)))),
                      (''disabled'',
                         JInt (int (length us) - int (length (filter enabled_or_absent us))))]),
                  (''licenseStatus'', JObj
                     [(''used'', JInt (sum_list (map consumed_units ls))),
                      (''available'',
                         JInt (sum_list (map enabled_units ls)
                               - sum_list (map consumed_units ls)))])])],
             int (length us), sum_list (map enabled_units ls))"
  using assms(1-4) [THEN settled_value] user_metrics_users [OF assms(5)]
        license_metrics_skus [OF assms(6)]
  by (simp add: build_payload_def fetch_users_def fetch_licenses_def fetch_groups_def
        fetch_sites_def)

lemmas pipeline_defs = collect_tenant_data_def get_tenant_credentials_def read_tenants_def
  write_tenants_def with_items_def world_of_def sample_env_def sample_prefix_def
  migrate_record_def looks_encrypted_def encrypt_secret_def decrypt_secret_def get_or_def
  tailspin_def fetch_users_def fetch_licenses_def fetch_groups_def fetch_sites_def fetch_def
  users_url_def licenses_url_def groups_url_def sites_url_def sample_get_def empty_value_def
  build_payload_def value_of_def user_metrics_def license_metrics_def py_num_def Let_def
  ada_def

lemma tailspin_credentials:
  "fst (get_tenant_credentials sample_env ''t3'' (world_of (JList [JObj tailspin])))
     = Inr (JStr ''dir-4'', JStr ''app-4'', JStr ''toys'')"
  by (simp add: pipeline_defs)

lemma sample_settled:
  "settled sample_env users_url (JStr ''tok'')
     [JObj [(''accountEnabled'', JBool True)], JObj [(''accountEnabled'', JBool False)], JObj []]"
  "settled sample_env licenses_url (JStr ''tok'')
     [JObj [(''prepaidUnits'', JObj [(''enabled'', JInt 10)]), (''consumedUnits'', JInt 4)],
      JObj [(''prepaidUnits'', JObj [(''enabled'', JInt 5)]), (''consumedUnits'', JInt 5)]]"
  "settled sample_env groups_url (JStr ''tok'') [JObj [(''displayName'', JStr ''g1'')]]"
  "settled sample_env sites_url (JStr ''tok'') [JObj [(''name'', JStr ''s1'')]]"
  by (simp_all add: settled_def returned_def sample_env_def sample_get_def
        users_url_def licenses_url_def groups_url_def sites_url_def)

text \<open>
  C4. Let the credentials resolve, the token request give an access token and the four
  fetches settle, the users fetch with the list \<open>us\<close> of user objects (and the licenses
  fetch with SKU objects, so that the payload is built). Then \<^verbatim>\<open>_collect_tenant_data\<close>
  answers 200 with a payload whose \<^verbatim>\<open>metrics\<close> object has \<^verbatim>\<open>totalUsers\<close> the length
  of \<open>us\<close>, \<^verbatim>\<open>activeUsers\<close> the number of users whose \<^verbatim>\<open>accountEnabled\<close> is true or
  absent, and \<^verbatim>\<open>disabledUsers\<close> their difference; the three users
  \<^verbatim>\<open>[{accountEnabled:true}, {accountEnabled:false}, {}]\<close> give 3, 2 and 1.
\<close>

theorem user_metrics_counts:
  assumes creds: "fst (get_tenant_credentials e tid w) = Inr (a, b, c)"
      "truthy a" "truthy b" "truthy c"
    and token: "acquire_token_for_client e a b c = Inr token"
      "map_of token ''access_token'' = Some tok"
    and fetches: "settled e users_url tok us" "settled e licenses_url tok ls"
      "settled e groups_url tok gs" "settled e sites_url tok ss"
    and shapes: "list_all is_user us" "list_all is_sku ls"
  shows "\<exists>payload. fst (collect_tenant_data e tid w) = (Body payload, 200)
           \<and> metric payload ''totalUsers'' = Some (JInt (int (length us)))
           \<and> metric payload ''activeUsers''
               = Some (JInt (int (length (filter enabled_or_absent us))))
           \<and> metric payload ''disabledUsers''
               = Some (JInt (int (length us) - int (length (filter enabled_or_absent us))))"
proof -
  note built = settled_payload [OF fetches shapes]
  from collect_returns_payload [OF creds token built]
  show ?thesis by (simp add: metric_def)
qed

theorem user_metrics_counts_witness:
  "settled sample_env users_url (JStr ''tok'')
     [JObj [(''accountEnabled'', JBool True)], JObj [(''accountEnabled'', JBool False)], JObj []]
   \<and> list_all is_user
       [JObj [(''accountEnabled'', JBool True)], JObj [(''accountEnabled'', JBool False)], JObj []]
   \<and> (\<exists>payload.
         fst (collect_tenant_data sample_env ''t3'' (world_of (JList [JObj tailspin])))
           = (Body payload, 200)
         \<and> metric payload ''totalUsers'' = Some (JInt 3)
         \<and> metric payload ''activeUsers'' = Some (JInt 2)
         \<and> metric payload ''disabledUsers'' = Some (JInt 1))"
proof -
  let ?us = "[JObj [(''accountEnabled'', JBool True)], JObj [(''accountEnabled'', JBool False)],
              JObj []]"
  let ?ls = "[JObj [(''prepaidUnits'', JObj [(''enabled'', JInt 10)]), (''consumedUnits'', JInt 4)],
              JObj [(''prepaidUnits'', JObj [(''enabled'', JInt 5)]), (''consumedUnits'', JInt 5)]]"
  have t: "acquire_token_for_client sample_env (JStr ''dir-4'') (JStr ''app-4'') (JStr ''toys'')
       = Inr [(''access_token'', JStr ''tok'')]"
    by (simp add: sample_env_def)
  have u: "list_all is_user ?us" by (simp add: is_user_def)
  have k: "list_all is_sku ?ls" by (simp add: is_sku_def)
  have n: "length (filter enabled_or_absent ?us) = 2" by (simp add: enabled_or_absent_def)
  from user_metrics_counts [OF tailspin_credentials _ _ _ t _ sample_settled u k]
  show ?thesis using sample_settled(1) u n by simp
qed

text \<open>
  C5. Under the same conditions, the licenses fetch settling with the list \<open>ls\<close> of
  license SKU objects, the \<^verbatim>\<open>metrics\<close> object of the payload has \<^verbatim>\<open>totalLicenses\<close> the
  sum of \<^verbatim>\<open>prepaidUnits.enabled\<close> and \<^verbatim>\<open>usedLicenses\<close> the sum of \<^verbatim>\<open>consumedUnits\<close>,
  a missing field counting 0, and \<^verbatim>\<open>availableLicenses\<close> their difference as an integer,
  which is negative when more units are used than enabled.
\<close>

theorem license_metrics_sums:
  assumes creds: "fst (get_tenant_credentials e tid w) = Inr (a, b, c)"
      "truthy a" "truthy b" "truthy c"
    and token: "acquire_token_for_client e a b c = Inr token"
      "map_of token ''access_token'' = Some tok"
    and fetches: "settled e users_url tok us" "settled e licenses_url tok ls"
      "settled e groups_url tok gs" "settled e sites_url tok ss"
    and shapes: "list_all is_user us" "list_all is_sku ls"
  shows "\<exists>payload. fst (collect_tenant_data e tid w) = (Body payload, 200)
           \<and> metric payload ''totalLicenses'' = Some (JInt (sum_list (map enabled_units ls)))
           \<and> metric payload ''usedLicenses'' = Some (JInt (sum_list (map consumed_units ls)))
           \<and> metric payload ''availableLicenses''
               = Some (JInt (sum_list (map enabled_units ls)
                             - sum_list (map consumed_units ls)))"
proof -
  note built = settled_payload [OF fetches shapes]
  from collect_returns_payload [OF creds token built]
  show ?thesis by (simp add: metric_def)
qed

theorem license_metrics_sums_witness:
  "settled oversold_env licenses_url (JStr ''tok'')
     [JObj [(''prepaidUnits'', JObj [(''enabled'', JInt 1)]), (''consumedUnits'', JInt 3)],
      JObj [(''prepaidUnits'', JObj [])], JObj []]
   \<and> list_all is_sku
       [JObj [(''prepaidUnits'', JObj [(''enabled'', JInt 1)]), (''consumedUnits'', JInt 3)],
        JObj [(''prepaidUnits'', JObj [])], JObj []]
   \<and> (\<exists>payload.
         fst (collect_tenant_data oversold_env ''t3'' (world_of (JList [JObj tailspin])))
           = (Body payload, 200)
         \<and> metric payload ''totalLicenses'' = Some (JInt 1)
         \<and> metric payload ''usedLicenses'' = Some (JInt 3)
         \<and> metric payload ''availableLicenses'' = Some (JInt (- 2)))"
proof -
  let ?us = "[JObj [(''accountEnabled'', JBool True)], JObj [(''accountEnabled'', JBool False)],
              JObj []]"
  let ?ls = "[JObj [(''prepaidUnits'', JObj [(''enabled'', JInt 1)]), (''consumedUnits'', JInt 3)],
              JObj [(''prepaidUnits'', JObj [])], JObj []]"
  have c: "fst (get_tenant_credentials oversold_env ''t3'' (world_of (JList [JObj tailspin])))
     = Inr (JStr ''dir-4'', JStr ''app-4'', JStr ''toys'')"
    by (simp add: oversold_env_def pipeline_defs)
  have t: "acquire_token_for_client oversold_env (JStr ''dir-4'') (JStr ''app-4'') (JStr ''toys'')
       = Inr [(''access_token'', JStr ''tok'')]"
    by (simp add: oversold_env_def sample_env_def)
  have s: "settled oversold_env users_url (JStr ''tok'') ?us"
    "settled oversold_env licenses_url (JStr ''tok'') ?ls"
    "settled oversold_env groups_url (JStr ''tok'') [JObj [(''displayName'', JStr ''g1'')]]"
    "settled oversold_env sites_url (JStr ''tok'') [JObj [(''name'', JStr ''s1'')]]"
    by (simp_all add: settled_def returned_def oversold_env_def sample_env_def sample_get_def
          users_url_def licenses_url_def groups_url_def sites_url_def)
  have u: "list_all is_user ?us" by (simp add: is_user_def)
  have k: "list_all is_sku ?ls" by (simp add: is_sku_def)
  have n: "sum_list (map enabled_units ?ls) = 1" "sum_list (map consumed_units ?ls) = 3"
    by (simp_all add: enabled_units_def consumed_units_def)
  from license_metrics_sums [OF c _ _ _ t _ s u k]
  show ?thesis using s(2) k n by simp
qed

section \<open>Credential resolution\<close>

lemma find_credentials_none:
  "list_all is_record ts \<Longrightarrow> list_all (\<lambda>t. has_id tid t \<longrightarrow> \<not> is_active t) ts \<Longrightarrow>
   find_credentials e tid ts = Inr (JStr [], JStr [], JStr [])"
proof (induction ts)
  case Nil
  then show ?case by simp
next
  case (Cons t ts)
  from Cons.prems(1) obtain kvs where k: "t = JObj kvs"
    by (cases t) (simp_all add: is_record_def)
  with Cons show ?case by (auto simp: has_id_def is_active_def)
qed

text \<open>
  C6. Whatever the store, \<^verbatim>\<open>_get_tenant_credentials\<close> returns the all-empty triplet
  for an identifier that no active record carries, that is, for an unknown identifier
  and for one whose record is inactive; and whenever the triplet it returns has an empty
  component, \<^verbatim>\<open>_collect_tenant_data\<close> answers 404 with the not-found payload, and no
  token request has been sent.
\<close>

theorem inactive_or_unknown_is_not_found:
  "(list_all (\<lambda>t. has_id tid t \<longrightarrow> \<not> is_active t) (stored_records e w)
      \<longrightarrow> fst (get_tenant_credentials e tid w) = Inr (JStr [], JStr [], JStr []))
   \<and> (fst (get_tenant_credentials e tid w) = Inr (a, b, c)
        \<and> (a = JStr [] \<or> b = JStr [] \<or> c = JStr [])
      \<longrightarrow> collect_tenant_data e tid w
            = ((error_body ''Tenant not found or missing credentials'', 404),
               snd (read_tenants e w))
          \<and> token_requests (snd (collect_tenant_data e tid w)) = token_requests w)"
proof (rule conjI; rule impI)
  assume "list_all (\<lambda>t. has_id tid t \<longrightarrow> \<not> is_active t) (stored_records e w)"
  with read_tenants_shape [of e w] find_credentials_none [of "stored_records e w" tid e]
  have "find_credentials e tid (stored_records e w) = Inr (JStr [], JStr [], JStr [])"
    by simp
  with read_tenants_shape [of e w]
  show "fst (get_tenant_credentials e tid w) = Inr (JStr [], JStr [], JStr [])"
    by (cases "read_tenants e w") (simp add: get_tenant_credentials_def)
next
  assume h: "fst (get_tenant_credentials e tid w) = Inr (a, b, c)
        \<and> (a = JStr [] \<or> b = JStr [] \<or> c = JStr [])"
  have w1: "snd (get_tenant_credentials e tid w) = snd (read_tenants e w)"
    by (cases "read_tenants e w") (simp add: get_tenant_credentials_def split: sum.splits)
  from h have nt: "\<not> (truthy a \<and> truthy b \<and> truthy c)" by auto
  obtain r w1 where g: "get_tenant_credentials e tid w = (r, w1)"
    by (cases "get_tenant_credentials e tid w")
  with h w1 have r: "r = Inr (a, b, c)" "w1 = snd (read_tenants e w)" by simp_all
  have res: "collect_tenant_data e tid w
            = ((error_body ''Tenant not found or missing credentials'', 404),
               snd (read_tenants e w))"
    using g r nt by (simp add: collect_tenant_data_def)
  then show "collect_tenant_data e tid w
            = ((error_body ''Tenant not found or missing credentials'', 404),
               snd (read_tenants e w))
          \<and> token_requests (snd (collect_tenant_data e tid w)) = token_requests w"
    by (simp add: read_tenants_token_requests)
qed

theorem inactive_or_unknown_is_not_found_witness:
  "(has_id ''t2'' (JObj fabrikam) \<and> \<not> is_active (JObj fabrikam))
   \<and> fst (get_tenant_credentials sample_env ''t2'' (world_of legacy_store))
       = Inr (JStr [], JStr [], JStr [])
   \<and> fst (get_tenant_credentials sample_env ''nope'' (world_of legacy_store))
       = Inr (JStr [], JStr [], JStr [])
   \<and> fst (collect_tenant_data sample_env ''t2'' (world_of legacy_store))
       = (error_body ''Tenant not found or missing credentials'', 404)
   \<and> token_requests (snd (collect_tenant_data sample_env ''t2'' (world_of legacy_store))) = []"
proof -
  have sr: "stored_records sample_env (world_of legacy_store)
       = [JObj (AList.update ''clientSecret'' (JStr ''gAAAAAAAAAAAAAAAAAAAAhunter2'') contoso),
          JObj fabrikam]"
    by (simp add: store_defs)
  have a: "has_id ''t2'' (JObj fabrikam)" "\<not> is_active (JObj fabrikam)"
    by (simp_all add: has_id_def is_active_def fabrikam_def get_or_def)
  have b: "\<not> has_id ''t2'' (JObj (AList.update ''clientSecret'' (JStr ''gAAAAAAAAAAAAAAAAAAAAhunter2'') contoso))"
    "\<not> has_id ''nope'' (JObj (AList.update ''clientSecret'' (JStr ''gAAAAAAAAAAAAAAAAAAAAhunter2'') contoso))"
    "\<not> has_id ''nope'' (JObj fabrikam)"
    by (simp_all add: has_id_def contoso_def fabrikam_def)
  have t0: "token_requests (world_of legacy_store) = []" by (simp add: world_of_def)
  from inactive_or_unknown_is_not_found
         [of "''t2''" sample_env "world_of legacy_store" "JStr []" "JStr []" "JStr []"]
       inactive_or_unknown_is_not_found
         [of "''nope''" sample_env "world_of legacy_store" "JStr []" "JStr []" "JStr []"]
  show ?thesis using sr a b t0 by auto
qed

section \<open>Deleting an unknown tenant\<close>

lemma keep_others_all:
  "list_all is_record ts \<Longrightarrow> list_all (\<lambda>t. \<not> has_id tid t) ts \<Longrightarrow> keep_others tid ts = Inr ts"
proof (induction ts)
  case Nil
  then show ?case by simp
next
  case (Cons t ts)
  from Cons.prems(1) obtain kvs where k: "t = JObj kvs"
    by (cases t) (simp_all add: is_record_def)
  with Cons show ?case by (simp add: has_id_def)
qed

lemma migrate_record_no_legacy:
  "\<not> needs_migration t \<Longrightarrow>
   migrate_record e n t = Inl AttributeError \<or> migrate_record e n t = Inr (t, False)"
  by (cases "is_record t")
     (auto simp: migrate_record_keep, auto simp: is_record_def migrate_record_def split: json.splits)

lemma migrate_loop_no_legacy:
  "\<not> list_ex needs_migration items \<Longrightarrow> migrate_loop e items ch n = (Inr (items', ch'), n') \<Longrightarrow>
   ch' = ch"
proof (induction items arbitrary: items' n n')
  case Nil
  then show ?case by simp
next
  case (Cons t ts)
  from Cons.prems(1) have nt: "\<not> needs_migration t" and rest: "\<not> list_ex needs_migration ts"
    by simp_all
  from migrate_record_no_legacy [OF nt, of e n] Cons.prems(2)
  have r: "migrate_record e n t = Inr (t, False)" by auto
  with Cons.prems(2) obtain ts' where "migrate_loop e ts ch n = (Inr (ts', ch'), n')"
    by (auto split: prod.splits sum.splits)
  with Cons.IH [OF rest] show ?case by blast
qed

lemma iter_no_legacy:
  assumes "py_iter tenants = Inr items"
    and "\<not> list_ex needs_migration (case tenants of JList ts \<Rightarrow> ts | _ \<Rightarrow> [])"
  shows "\<not> list_ex needs_migration items"
proof (cases tenants)
  case (JList xs)
  with assms show ?thesis by simp
next
  case (JObj kvs)
  with assms(1) show ?thesis by (auto simp: list_ex_iff needs_migration_def)
next
  case (JStr s)
  with assms(1) show ?thesis by (auto simp: list_ex_iff needs_migration_def)
qed (use assms in simp_all)

lemma read_tenants_no_write:
  assumes "\<not> list_ex needs_migration (file_records e w)"
  shows "tenants_file (snd (read_tenants e w)) = tenants_file w
       \<and> writes (snd (read_tenants e w)) = writes w"
proof (cases "tenants_file w")
  case None
  then show ?thesis by (simp add: read_tenants_def)
next
  case (Some content)
  show ?thesis
  proof (cases "loads e content")
    case None
    with Some show ?thesis by (simp add: read_tenants_def)
  next
    case tenants: (Some tenants)
    show ?thesis
    proof (cases "py_iter tenants")
      case (Inl x)
      with Some tenants show ?thesis by (simp add: read_tenants_def)
    next
      case (Inr items)
      have "\<not> list_ex needs_migration (case tenants of JList ts \<Rightarrow> ts | _ \<Rightarrow> [])"
        using assms Some tenants by (simp add: file_records_def)
      with Inr have clean: "\<not> list_ex needs_migration items" by (rule iter_no_legacy)
      obtain r n where m: "migrate_loop e items False (ticks w) = (r, n)"
        by (cases "migrate_loop e items False (ticks w)")
      show ?thesis
      proof (cases r)
        case (Inl x)
        with Some tenants Inr m show ?thesis by (simp add: read_tenants_def)
      next
        case r: (Inr p)
        obtain items' ch where p: "p = (items', ch)" by (cases p)
        from migrate_loop_no_legacy [OF clean m [unfolded r p]] have "\<not> ch" by simp
        with Some tenants Inr m r p show ?thesis by (simp add: read_tenants_def)
      qed
    qed
  qed
qed

text \<open>
  C8, as the code has it. For an identifier that no stored record carries,
  \<^verbatim>\<open>delete_tenant\<close> answers 404 with the not-found payload and writes nothing of its
  own: the state it leaves is the one its \<^verbatim>\<open>_read_tenants\<close> leaves. When the file
  holds no legacy plaintext secret, the file is unchanged and no write has been made.
\<close>

theorem delete_unknown_id:
  assumes "list_all (\<lambda>t. \<not> has_id tid t) (stored_records e w)"
  shows "delete_tenant e tid w = ((error_body ''Tenant not found'', 404), snd (read_tenants e w))
       \<and> (\<not> list_ex needs_migration (file_records e w)
            \<longrightarrow> tenants_file (snd (delete_tenant e tid w)) = tenants_file w
              \<and> writes (snd (delete_tenant e tid w)) = writes w)"
proof -
  from read_tenants_shape [of e w] have
    it: "py_iter (fst (read_tenants e w)) = Inr (stored_records e w)"
    and ln: "py_len (fst (read_tenants e w)) = Inr (int (length (stored_records e w)))"
    and rc: "list_all is_record (stored_records e w)"
    by simp_all
  have ko: "keep_others tid (stored_records e w) = Inr (stored_records e w)"
    using rc assms by (rule keep_others_all)
  have d: "delete_tenant e tid w = ((error_body ''Tenant not found'', 404), snd (read_tenants e w))"
    using it ln ko by (cases "read_tenants e w") (simp add: delete_tenant_def)
  with read_tenants_no_write [of e w] show ?thesis by simp
qed

theorem delete_unknown_id_witness:
  "\<not> has_id ''nope'' (JObj fabrikam)
   \<and> stored_records sample_env (world_of (JList [JObj fabrikam])) = [JObj fabrikam]
   \<and> \<not> needs_migration (JObj fabrikam)
   \<and> fst (delete_tenant sample_env ''nope'' (world_of (JList [JObj fabrikam])))
       = (error_body ''Tenant not found'', 404)
   \<and> tenants_file (snd (delete_tenant sample_env ''nope'' (world_of (JList [JObj fabrikam]))))
       = Some (JList [JObj fabrikam])
   \<and> writes (snd (delete_tenant sample_env ''nope'' (world_of (JList [JObj fabrikam])))) = 0"
proof -
  have sr: "stored_records sample_env (world_of (JList [JObj fabrikam])) = [JObj fabrikam]"
    by (simp add: store_defs)
  have fr: "file_records sample_env (world_of (JList [JObj fabrikam])) = [JObj fabrikam]"
    by (simp add: file_records_def world_of_def sample_env_def)
  have a: "\<not> has_id ''nope'' (JObj fabrikam)" "\<not> needs_migration (JObj fabrikam)"
    by (simp_all add: has_id_def needs_migration_def fabrikam_def looks_encrypted_def)
  have w0: "tenants_file (world_of (JList [JObj fabrikam])) = Some (JList [JObj fabrikam])"
    "writes (world_of (JList [JObj fabrikam])) = 0"
    by (simp_all add: world_of_def)
  from delete_unknown_id [of "''nope''" sample_env "world_of (JList [JObj fabrikam])"]
  show ?thesis using sr fr a w0 by auto
qed

text \<open>
  C8 as stated fails on a store with a legacy plaintext secret: the delete of an unknown
  identifier answers 404, and the migration of its read has rewritten the file.
\<close>

theorem delete_unknown_id_migrates_legacy_store:
  "\<not> has_id ''nope'' (JObj contoso) \<and> \<not> has_id ''nope'' (JObj fabrikam)
   \<and> tenants_file (world_of legacy_store) = Some (JList [JObj contoso, JObj fabrikam])
   \<and> fst (delete_tenant sample_env ''nope'' (world_of legacy_store))
       = (error_body ''Tenant not found'', 404)
   \<and> tenants_file (snd (delete_tenant sample_env ''nope'' (world_of legacy_store)))
       = Some (JList [JObj (AList.update ''clientSecret''
                              (JStr ''gAAAAAAAAAAAAAAAAAAAAhunter2'') contoso), JObj fabrikam])
   \<and> tenants_file (snd (delete_tenant sample_env ''nope'' (world_of legacy_store)))
       \<noteq> tenants_file (world_of legacy_store)
   \<and> writes (snd (delete_tenant sample_env ''nope'' (world_of legacy_store))) = 1"
  by (simp add: delete_tenant_def store_defs has_id_def error_body_def)

section \<open>Updating with an empty payload\<close>

lemma update_record_empty:
  assumes "normal_record t"
  shows "update_record e [] t n = (Inr t, n)"
proof -
  from assms obtain nm ti ci where
    s: "map_of t ''name'' = Some (JStr nm)" "strip nm = nm"
       "map_of t ''tenantId'' = Some (JStr ti)" "strip ti = ti"
       "map_of t ''clientId'' = Some (JStr ci)" "strip ci = ci"
    by (auto simp: normal_record_def trimmed_field_def split: option.splits json.splits)
  from assms obtain b ls uc lc where
    r: "map_of t ''isActive'' = Some (JBool b)" "map_of t ''lastSync'' = Some ls"
       "map_of t ''userCount'' = Some (JInt uc)" "map_of t ''licenseCount'' = Some (JInt lc)"
    by (auto simp: normal_record_def int_field_def split: option.splits json.splits)
  show ?thesis
    using s r
    by (simp add: update_record_def get_or_def or_zero_def py_int_def py_str_def
          AList.update_triv)
qed

lemma update_loop_empty:
  assumes "has_id tid (JObj t)" "normal_record t"
  shows "list_all is_record pre \<Longrightarrow> list_all (\<lambda>x. \<not> has_id tid x) pre \<Longrightarrow>
         update_loop e tid [] (pre @ JObj t # post) n
           = (Inr (pre @ JObj t # post, Some (JObj t)), n)"
proof (induction pre)
  case Nil
  with assms update_record_empty [OF assms(2), of e n] show ?case
    by (simp add: has_id_def)
next
  case (Cons p pre)
  from Cons.prems(1) obtain kvs where k: "p = JObj kvs"
    by (cases p) (simp_all add: is_record_def)
  with Cons show ?case by (simp add: has_id_def)
qed

text \<open>
  C7, as the code has it. When the first stored record with the identifier is in the
  form the store's own operations write (the three names trimmed strings, \<^verbatim>\<open>isActive\<close>
  a boolean, \<^verbatim>\<open>lastSync\<close> present, the two counts integers), \<^verbatim>\<open>update_tenant\<close> with
  the empty payload answers 200 with that record and writes back the list exactly as it
  was read: no field of the record, its secret included, has changed.
\<close>

theorem update_empty_payload:
  assumes "stored_records e w = pre @ JObj t # post"
    and "list_all (\<lambda>x. \<not> has_id tid x) pre"
    and "has_id tid (JObj t)"
    and "normal_record t"
  shows "update_tenant e tid [] w
           = ((Body (redact t (JBool (truthy (get_or t ''clientSecret'' JNull)))), 200),
              write_tenants e (JList (pre @ JObj t # post)) (snd (read_tenants e w)))"
proof -
  obtain tenants w1 where rd: "read_tenants e w = (tenants, w1)" by (cases "read_tenants e w")
  with assms(1) have tn: "tenants = JList (pre @ JObj t # post)"
    by (cases tenants) (simp_all add: stored_records_def)
  from read_tenants_shape [of e w] assms(1) have "list_all is_record pre"
    by simp
  from update_loop_empty [OF assms(3,4) this assms(2), of e post "ticks w1"]
  have ul: "update_loop e tid [] (pre @ JObj t # post) (ticks w1)
           = (Inr (pre @ JObj t # post, Some (JObj t)), ticks w1)" .
  from assms(3) have ne: "t \<noteq> []" by (auto simp: has_id_def)
  show ?thesis
    using rd tn ul ne by (simp add: update_tenant_def with_items_def)
qed

theorem update_empty_payload_witness:
  "stored_records sample_env (world_of legacy_store)
     = [JObj (AList.update ''clientSecret'' (JStr ''gAAAAAAAAAAAAAAAAAAAAhunter2'') contoso)]
       @ JObj fabrikam # []
   \<and> \<not> has_id ''t2'' (JObj (AList.update ''clientSecret'' (JStr ''gAAAAAAAAAAAAAAAAAAAAhunter2'') contoso))
   \<and> has_id ''t2'' (JObj fabrikam) \<and> normal_record fabrikam
   \<and> snd (fst (update_tenant sample_env ''t2'' [] (world_of legacy_store))) = 200
   \<and> tenants_file (snd (update_tenant sample_env ''t2'' [] (world_of legacy_store)))
       = Some (JList (stored_records sample_env (world_of legacy_store)))"
proof -
  have sr: "stored_records sample_env (world_of legacy_store)
     = [JObj (AList.update ''clientSecret'' (JStr ''gAAAAAAAAAAAAAAAAAAAAhunter2'') contoso)]
       @ JObj fabrikam # []"
    by (simp add: store_defs)
  have a: "\<not> has_id ''t2'' (JObj (AList.update ''clientSecret'' (JStr ''gAAAAAAAAAAAAAAAAAAAAhunter2'') contoso))"
    "has_id ''t2'' (JObj fabrikam)"
    by (simp_all add: has_id_def contoso_def fabrikam_def)
  have n: "normal_record fabrikam"
    by (simp add: normal_record_def trimmed_field_def int_field_def fabrikam_def strip_def is_space_def)
  have a': "list_all (\<lambda>x. \<not> has_id ''t2'' x)
              [JObj (AList.update ''clientSecret'' (JStr ''gAAAAAAAAAAAAAAAAAAAAhunter2'') contoso)]"
    using a(1) by simp
  from update_empty_payload [OF sr a' a(2) n]
  show ?thesis using sr a n by (simp add: write_tenants_def sample_env_def)
qed

text \<open>
  C7 as stated fails on a record outside that form: the update with the empty payload
  trims a padded name and turns a null user count into 0.
\<close>

theorem update_empty_payload_normalises:
  "has_id ''t3'' (JObj tailspin)
   \<and> stored_records sample_env (world_of (JList [JObj tailspin])) = [JObj tailspin]
   \<and> map_of tailspin ''name'' = Some (JStr '' Tailspin '')
   \<and> map_of tailspin ''userCount'' = Some JNull
   \<and> snd (fst (update_tenant sample_env ''t3'' [] (world_of (JList [JObj tailspin])))) = 200
   \<and> tenants_file (snd (update_tenant sample_env ''t3'' [] (world_of (JList [JObj tailspin]))))
       = Some (JList [JObj (AList.update ''userCount'' (JInt 0)
                             (AList.update ''name'' (JStr ''Tailspin'') tailspin))])
   \<and> AList.update ''userCount'' (JInt 0) (AList.update ''name'' (JStr ''Tailspin'') tailspin)
       \<noteq> tailspin"
  by (simp add: update_tenant_def update_record_def store_defs has_id_def tailspin_def
        get_or_def or_zero_def py_int_def py_str_def strip_def is_space_def redact_def)

section \<open>Fault isolation of the four fetches\<close>

lemma active_filter_total:
  "list_all is_record us \<Longrightarrow> \<exists>act. active_filter us = Inr act"
proof (induction us)
  case Nil
  then show ?case by simp
next
  case (Cons u us)
  from Cons.prems obtain kvs where k: "u = JObj kvs"
    by (cases u) (simp_all add: is_record_def)
  from Cons obtain act where "active_filter us = Inr act" by auto
  with k show ?case by simp
qed

lemma user_metrics_total:
  "list_all is_record us \<Longrightarrow> \<exists>n a d. user_metrics (JList us) = Inr (n, a, d)"
  using active_filter_total [of us] by (auto simp: user_metrics_def)

text \<open>
  C3, as the code has it. Let the credentials resolve and the token request give an
  access token, and let each of the four fetches either fail (the request raises, the
  status is from 400 to 599, or the body is not JSON) or return an object with a list
  under \<^verbatim>\<open>value\<close>, the users being objects and the licenses SKU objects. Then
  \<^verbatim>\<open>_collect_tenant_data\<close> answers 200, and in its payload the collection of every
  failed fetch is empty while the collection of every other fetch is the list that fetch
  returned, whichever and however many of the four failed.
\<close>

theorem fetch_isolation:
  assumes creds: "fst (get_tenant_credentials e tid w) = Inr (a, b, c)"
      "truthy a" "truthy b" "truthy c"
    and token: "acquire_token_for_client e a b c = Inr token"
      "map_of token ''access_token'' = Some tok"
    and fetches: "settled e users_url tok us" "settled e licenses_url tok ls"
      "settled e groups_url tok gs" "settled e sites_url tok ss"
    and shapes: "list_all is_record us" "list_all is_sku ls"
  shows "\<exists>m. fst (collect_tenant_data e tid w)
           = (Body (JObj [(''users'', JList us), (''groups'', JList gs), (''sites'', JList ss),
                          (''licenses'', JList ls), (''metrics'', m)]), 200)"
proof -
  obtain w1 where g: "get_tenant_credentials e tid w = (Inr (a, b, c), w1)"
    using creds(1) by (cases "get_tenant_credentials e tid w") simp
  let ?w2 = "w1\<lparr>token_requests := token_requests w1 @ [(a, b, c)]\<rparr>"
  from user_metrics_total [OF shapes(1)] obtain n ac d where
    um: "user_metrics (JList us) = Inr (n, ac, d)" by blast
  have lm: "license_metrics (JList ls)
           = Inr (sum_list (map enabled_units ls), sum_list (map consumed_units ls),
                  sum_list (map enabled_units ls) - sum_list (map consumed_units ls))"
    using sum_enabled_skus [OF shapes(2)] sum_consumed_skus [OF shapes(2)]
    by (simp add: license_metrics_def)
  have bp: "\<exists>m. build_payload (fetch_users e tok) (fetch_licenses e tok)
                   (fetch_groups e tok) (fetch_sites e tok)
             = Inr (JObj [(''users'', JList us), (''groups'', JList gs), (''sites'', JList ss),
                          (''licenses'', JList ls), (''metrics'', m)],
                    n, sum_list (map enabled_units ls))"
    using fetches [THEN settled_value] um lm
    by (simp add: build_payload_def fetch_users_def fetch_licenses_def fetch_groups_def
          fetch_sites_def)
  then obtain m where bp': "build_payload (fetch_users e tok) (fetch_licenses e tok)
                   (fetch_groups e tok) (fetch_sites e tok)
             = Inr (JObj [(''users'', JList us), (''groups'', JList gs), (''sites'', JList ss),
                          (''licenses'', JList ls), (''metrics'', m)],
                    n, sum_list (map enabled_units ls))" by blast
  obtain tenants w3 where rd: "read_tenants e ?w2 = (tenants, w3)"
    by (cases "read_tenants e ?w2")
  from read_tenants_shape [of e ?w2] rd have
    it: "py_iter tenants = Inr (stored_records e ?w2)"
    and rc: "list_all is_record (stored_records e ?w2)" by simp_all
  from record_sync_total [OF rc] obtain r where
    rs: "record_sync tid (now_isoformat e (ticks w3)) n (sum_list (map enabled_units ls))
           (stored_records e ?w2) = Inr r" by blast
  have "fst (collect_tenant_data e tid w)
           = (Body (JObj [(''users'', JList us), (''groups'', JList gs), (''sites'', JList ss),
                          (''licenses'', JList ls), (''metrics'', m)]), 200)"
    using g creds(2-4) token bp' rd it rs
    by (simp add: collect_tenant_data_def Let_def)
  then show ?thesis ..
qed


theorem fetch_isolation_witness:
  "fst (get_tenant_credentials outage_env ''t3'' (world_of (JList [JObj tailspin])))
     = Inr (JStr ''dir-4'', JStr ''app-4'', JStr ''toys'')
   \<and> acquire_token_for_client outage_env (JStr ''dir-4'') (JStr ''app-4'') (JStr ''toys'')
       = Inr [(''access_token'', JStr ''tok'')]
   \<and> requests_get outage_env users_url (JStr ''tok'')
       = Response 503 (Some (JObj [(''value'', JList [ada])]))
   \<and> failed outage_env users_url (JStr ''tok'')
   \<and> returned outage_env groups_url (JStr ''tok'') [JObj [(''displayName'', JStr ''g1'')]]
   \<and> returned outage_env sites_url (JStr ''tok'') [JObj [(''name'', JStr ''s1'')]]
   \<and> (\<exists>m. fst (collect_tenant_data outage_env ''t3'' (world_of (JList [JObj tailspin])))
          = (Body (JObj [(''users'', JList []),
                         (''groups'', JList [JObj [(''displayName'', JStr ''g1'')]]),
                         (''sites'', JList [JObj [(''name'', JStr ''s1'')]]),
                         (''licenses'', JList
                            [JObj [(''prepaidUnits'', JObj [(''enabled'', JInt 10)]), (''consumedUnits'', JInt 4)],
                             JObj [(''prepaidUnits'', JObj [(''enabled'', JInt 5)]), (''consumedUnits'', JInt 5)]]),
                         (''metrics'', m)]), 200))"
proof -
  let ?ls = "[JObj [(''prepaidUnits'', JObj [(''enabled'', JInt 10)]), (''consumedUnits'', JInt 4)],
              JObj [(''prepaidUnits'', JObj [(''enabled'', JInt 5)]), (''consumedUnits'', JInt 5)]]"
  have c: "fst (get_tenant_credentials outage_env ''t3'' (world_of (JList [JObj tailspin])))
     = Inr (JStr ''dir-4'', JStr ''app-4'', JStr ''toys'')"
    by (simp add: outage_env_def pipeline_defs)
  have t: "acquire_token_for_client outage_env (JStr ''dir-4'') (JStr ''app-4'') (JStr ''toys'')
       = Inr [(''access_token'', JStr ''tok'')]"
    by (simp add: outage_env_def sample_env_def)
  have r: "requests_get outage_env users_url (JStr ''tok'')
       = Response 503 (Some (JObj [(''value'', JList [ada])]))"
    by (simp add: outage_env_def sample_env_def)
  have f: "failed outage_env users_url (JStr ''tok'')"
    by (simp add: failed_def outage_env_def sample_env_def)
  have l: "returned outage_env licenses_url (JStr ''tok'') ?ls"
    by (simp add: returned_def outage_env_def sample_env_def sample_get_def
          users_url_def licenses_url_def)
  have g: "returned outage_env groups_url (JStr ''tok'') [JObj [(''displayName'', JStr ''g1'')]]"
    by (simp add: returned_def outage_env_def sample_env_def sample_get_def
          users_url_def licenses_url_def groups_url_def)
  have s: "returned outage_env sites_url (JStr ''tok'') [JObj [(''name'', JStr ''s1'')]]"
    by (simp add: returned_def outage_env_def sample_env_def sample_get_def
          users_url_def licenses_url_def groups_url_def sites_url_def)
  have k: "list_all is_sku ?ls" by (simp add: is_sku_def)
  from fetch_isolation [of outage_env "''t3''" "world_of (JList [JObj tailspin])",
         OF c _ _ _ t, of "JStr ''tok''" "[]" ?ls "[JObj [(''displayName'', JStr ''g1'')]]"
           "[JObj [(''name'', JStr ''s1'')]]"]
  show ?thesis using c t r f l g s k by (simp add: settled_def)
qed

text \<open>
  C3 as stated fails for a status outside 2xx for which \<^verbatim>\<open>raise_for_status\<close> does
  not raise: the users endpoint answers 300 with a JSON body, and the users of that body
  are in the payload.
\<close>

theorem redirect_status_is_not_isolated:
  "requests_get redirect_env users_url (JStr ''tok'')
     = Response 300 (Some (JObj [(''value'', JList [ada])]))
   \<and> fetch_users redirect_env (JStr ''tok'') = JObj [(''value'', JList [ada])]
   \<and> fst (collect_tenant_data redirect_env ''t3'' (world_of (JList [JObj tailspin])))
       = (Body (JObj
           [(''users'', JList [ada]),
            (''groups'', JList [JObj [(''displayName'', JStr ''g1'')]]),
            (''sites'', JList [JObj [(''name'', JStr ''s1'')]]),
            (''licenses'', JList
               [JObj [(''prepaidUnits'', JObj [(''enabled'', JInt 10)]), (''consumedUnits'', JInt 4)],
                JObj [(''prepaidUnits'', JObj [(''enabled'', JInt 5)]), (''consumedUnits'', JInt 5)]]),
            (''metrics'', JObj
               [(''totalUsers'', JInt 1), (''activeUsers'', JInt 1),
                (''disabledUsers'', JInt 0), (''totalLicenses'', JInt 15),
                (''usedLicenses'', JInt 9), (''availableLicenses'', JInt 6),
                (''userStatus'', JObj [(''active'', JInt 1), (''disabled'', JInt 0)]),
                (''licenseStatus'', JObj [(''used'', JInt 9), (''available'', JInt 6)])])]), 200)"
  by (simp add: redirect_env_def pipeline_defs)

section \<open>Concurrent creation\<close>

text \<open>
  C9. Two creation requests in the schedule \<open>interleaved_creates\<close>, on an empty
  store: both answer 201, with distinct ids, and the file holds the second record only.
  The record of the first request is lost, because the lock is held inside
  \<^verbatim>\<open>_read_tenants\<close> and inside \<^verbatim>\<open>_write_tenants\<close> and not across the two.
\<close>

theorem interleaved_creates_lose_a_record:
  "interleaved_creates sample_env northwind_payload litware_payload (world_of (JList []))
     = Some ((Body (JObj [(''id'', JStr ''u''), (''name'', JStr ''Northwind''),
                          (''tenantId'', JStr ''dir-3''), (''clientId'', JStr ''app-3''),
                          (''isActive'', JBool True), (''lastSync'', JStr []),
                          (''userCount'', JInt 0), (''licenseCount'', JInt 0),
                          (''hasSecret'', JBool True)]), 201),
             (Body (JObj [(''id'', JStr ''uuu''), (''name'', JStr ''Litware''),
                          (''tenantId'', JStr ''dir-5''), (''clientId'', JStr ''app-5''),
                          (''isActive'', JBool True), (''lastSync'', JStr []),
                          (''userCount'', JInt 0), (''licenseCount'', JInt 0),
                          (''hasSecret'', JBool True)]), 201),
             \<lparr>tenants_file = Some (JList
                [JObj [(''id'', JStr ''uuu''), (''name'', JStr ''Litware''),
                       (''tenantId'', JStr ''dir-5''), (''clientId'', JStr ''app-5''),
                       (''clientSecret'', JStr ''gAAAAAAAAAAAAAAAAAAAAqwerty''),
                       (''isActive'', JBool True), (''lastSync'', JStr []),
                       (''userCount'', JInt 0), (''licenseCount'', JInt 0)]]),
              writes = 2, ticks = 4, token_requests = []\<rparr>)"
  by (simp add: interleaved_creates_def run_defs northwind_payload_def litware_payload_def)

section \<open>Decryption of values outside the envelope format\<close>

text \<open>
  C10, as the code has it. A string that does not match the envelope heuristic (empty,
  not starting with \<^verbatim>\<open>gAAAA\<close>, or of length at most 20) is returned by
  \<^verbatim>\<open>_decrypt_secret\<close> as it is; a string that matches is replaced by its plaintext when
  Fernet decrypts it and by the empty string when Fernet fails. So the result is the
  empty string exactly for the empty input, for a matching string that fails decryption,
  and for a matching string that is a valid token of the empty plaintext.
\<close>

theorem decrypt_secret_passthrough:
  "(s = [] \<or> take 5 s \<noteq> ''gAAAA'' \<or> length s \<le> 20
      \<longrightarrow> decrypt_secret e (JStr s) = JStr s)
   \<and> (looks_encrypted (JStr s) \<and> fernet_decrypt e s = None
      \<longrightarrow> decrypt_secret e (JStr s) = JStr [])
   \<and> (looks_encrypted (JStr s) \<and> fernet_decrypt e s = Some p
      \<longrightarrow> decrypt_secret e (JStr s) = JStr p)
   \<and> (decrypt_secret e (JStr s) = JStr []
      \<longleftrightarrow> s = [] \<or> (looks_encrypted (JStr s) \<and> fernet_decrypt e s \<in> {None, Some []}))"
  by (auto simp: decrypt_secret_def looks_encrypted_def split: option.splits)

theorem decrypt_secret_passthrough_witness:
  "take 5 ''hunter2'' \<noteq> ''gAAAA''
   \<and> decrypt_secret sample_env (JStr ''hunter2'') = JStr ''hunter2''
   \<and> looks_encrypted (JStr ''gAAAAxxxxxxxxxxxxxxxxxxxx'')
   \<and> fernet_decrypt sample_env ''gAAAAxxxxxxxxxxxxxxxxxxxx'' = None
   \<and> decrypt_secret sample_env (JStr ''gAAAAxxxxxxxxxxxxxxxxxxxx'') = JStr []
   \<and> fernet_decrypt sample_env ''gAAAAAAAAAAAAAAAAAAAAhunter2'' = Some ''hunter2''
   \<and> decrypt_secret sample_env (JStr ''gAAAAAAAAAAAAAAAAAAAAhunter2'') = JStr ''hunter2''"
  using decrypt_secret_passthrough [of "''hunter2''" sample_env]
        decrypt_secret_passthrough [of "''gAAAAxxxxxxxxxxxxxxxxxxxx''" sample_env]
        decrypt_secret_passthrough [of "''gAAAAAAAAAAAAAAAAAAAAhunter2''" sample_env "''hunter2''"]
  by (simp add: looks_encrypted_def sample_env_def sample_prefix_def)

text \<open>
  C10 as stated fails in its last clause: the token of the empty plaintext matches the
  heuristic and Fernet decrypts it without failure, and the result is the empty string.
\<close>

theorem empty_plaintext_token_decrypts_to_empty:
  "fernet_encrypt sample_env 0 [] = ''gAAAAAAAAAAAAAAAAAAAA''
   \<and> looks_encrypted (JStr ''gAAAAAAAAAAAAAAAAAAAA'')
   \<and> fernet_decrypt sample_env ''gAAAAAAAAAAAAAAAAAAAA'' = Some []
   \<and> decrypt_secret sample_env (JStr ''gAAAAAAAAAAAAAAAAAAAA'') = JStr []"
  by (simp add: decrypt_secret_def looks_encrypted_def sample_env_def sample_prefix_def)

end
